theory Spec2Isabelle
  imports Main "HOL-Library.Word" "HOL-Library.Sublist"
begin

section \<open>Module constants and exceptions\<close>

text \<open>
  The embedding follows \<^verbatim>\<open>src/pandarallel/pandarallel.py\<close>.  Python exceptions
  are values of \<open>py_error\<close>; a computation that may raise returns \<open>py_error + 'a\<close>
  with \<open>Inl\<close> for the exception.
\<close>

datatype py_error =
    KeyError string
  | KeyErrorBytes "8 word list"
  | ValueError string
  | IndexError
  | NameError string
  | TypeError string
  | ZeroDivisionError
  | SystemError string
  | UnboundLocalError string
  | PicklingError
  | EOFError
  | FileNotFoundError string
  | OSError
  | UserError string

definition PREFIX :: string where
  "PREFIX = ''pandarallel_''"

definition PREFIX_INPUT :: string where
  "PREFIX_INPUT = PREFIX @ ''input_''"

definition PREFIX_OUTPUT :: string where
  "PREFIX_OUTPUT = PREFIX @ ''output_''"

definition SUFFIX :: string where
  "SUFFIX = ''.pickle''"

definition MEMORY_FS_ROOT :: string where
  "MEMORY_FS_ROOT = ''/dev/shm''"

text \<open>\<^verbatim>\<open>INPUT_FILE_READ, PROGRESSION, VALUE, ERROR = list(range(4))\<close>\<close>

definition INPUT_FILE_READ :: nat where "INPUT_FILE_READ = 0"
definition PROGRESSION :: nat where "PROGRESSION = 1"
definition VALUE :: nat where "VALUE = 2"
definition ERROR :: nat where "ERROR = 3"

section \<open>Availability of the memory file system and \<open>initialize\<close>\<close>

text \<open>
  What the process can observe of the operating system: which paths exist and which of
  them the user may write to.  \<^verbatim>\<open>os.path.exists\<close> reads the first component only.
\<close>

record os_env =
  path_exists :: "string \<Rightarrow> bool"
  path_writable :: "string \<Rightarrow> bool"

definition is_memory_fs_available :: "os_env \<Rightarrow> bool" where
  "is_memory_fs_available env = path_exists env MEMORY_FS_ROOT"

text \<open>
  \<^verbatim>\<open>parallelize(nb_workers, use_memory_fs, progress_bar, context, get_chunks, worker,
  reduce, get_worker_meta_args=..., get_reduce_meta_args=...)\<close> returns a closure over its
  arguments.  The closure is represented by the record of the captured arguments; the
  body of the closure is \<open>closure\<close> further down.  The hooks are a type parameter: in
  \<open>initialize\<close> they are the names of the adapter functions (which live in other
  modules), when the closure is run they are functions.
\<close>

record ('ctx, 'gc, 'w, 'r, 'wm, 'rm) parallelized =
  p_nb_workers :: nat
  p_use_memory_fs :: bool
  p_progress_bar :: bool
  p_context :: 'ctx
  p_get_chunks :: 'gc
  p_worker :: 'w
  p_reduce :: 'r
  p_get_worker_meta_args :: 'wm
  p_get_reduce_meta_args :: 'rm

definition parallelize ::
  "nat \<Rightarrow> bool \<Rightarrow> bool \<Rightarrow> 'ctx \<Rightarrow> 'gc \<Rightarrow> 'w \<Rightarrow> 'r \<Rightarrow> 'wm \<Rightarrow> 'rm
    \<Rightarrow> ('ctx, 'gc, 'w, 'r, 'wm, 'rm) parallelized" where
  "parallelize nb_workers use_memory_fs progress_bar ctx get_chunks worker reduce
      get_worker_meta_args get_reduce_meta_args =
    \<lparr> p_nb_workers = nb_workers, p_use_memory_fs = use_memory_fs,
      p_progress_bar = progress_bar, p_context = ctx, p_get_chunks = get_chunks,
      p_worker = worker, p_reduce = reduce,
      p_get_worker_meta_args = get_worker_meta_args,
      p_get_reduce_meta_args = get_reduce_meta_args \<rparr>"

text \<open>The adapter functions \<open>initialize\<close> passes on, by name.\<close>

datatype hook =
    DF_Apply_get_chunks | DF_Apply_worker | DF_ApplyMap_get_chunks | DF_ApplyMap_worker
  | DF_reduce
  | S_get_chunks | S_Apply_worker | S_Map_worker | S_reduce
  | SR_get_chunks | SR_worker | SR_reduce | SR_att2value
  | DFGB_get_chunks | DFGB_worker | DFGB_reduce | DFGB_get_index
  | RGB_get_chunks | RGB_worker | RGB_reduce
  | Default_meta_args

text \<open>The attributes \<open>initialize\<close> sets on the pandas classes.\<close>

datatype parallel_op =
    DataFrame_parallel_apply
  | DataFrame_parallel_applymap
  | Series_parallel_apply
  | Series_parallel_map
  | Rolling_parallel_apply
  | DataFrameGroupBy_parallel_apply
  | RollingGroupby_parallel_apply

type_synonym 'ctx registry =
  "parallel_op \<rightharpoonup> ('ctx, hook, hook, hook, hook, hook) parallelized"

text \<open>
  The lines \<open>initialize\<close> prints: "Pandarallel will run on \<open>n\<close> workers.", then
  "Pandarallel will use Memory file system to transfer data ..." or "Pandarallel will use
  standard multiprocessing data transfer (pipe) ...".
\<close>

datatype log_line = Log_workers nat | Log_memory_fs | Log_pipe

text \<open>
  \<open>use_memory_fs\<close> is \<open>None\<close>, \<open>True\<close> or \<open>False\<close> in the source:
  \<^verbatim>\<open>use_memory_fs = use_memory_fs or use_memory_fs is None and memory_fs_available\<close>.
  The result carries the lines printed and the patched class attributes.
\<close>

definition initialize ::
  "os_env \<Rightarrow> 'ctx registry \<Rightarrow> 'ctx \<Rightarrow> nat \<Rightarrow> bool \<Rightarrow> int \<Rightarrow> bool option
    \<Rightarrow> py_error + (log_line list \<times> 'ctx registry)" where
  "initialize env classes ctx nb_workers progress_bar verbose use_memory_fs_arg =
    (let memory_fs_available = is_memory_fs_available env;
         use_memory_fs =
           (case use_memory_fs_arg of
              Some True \<Rightarrow> True
            | Some False \<Rightarrow> False
            | None \<Rightarrow> memory_fs_available)
     in
     if use_memory_fs \<and> \<not> memory_fs_available
     then Inl (SystemError ''Memory file system is not available'')
     else
       let printed =
             (if verbose \<ge> 1
              then [Log_workers nb_workers,
                    (if use_memory_fs then Log_memory_fs else Log_pipe)]
              else []);
           nbw = nb_workers;
           bargs = parallelize nbw use_memory_fs progress_bar ctx;
           bargs0 = parallelize nbw use_memory_fs False ctx
       in Inr (printed,
            classes
              (DataFrame_parallel_apply \<mapsto>
                 bargs DF_Apply_get_chunks DF_Apply_worker DF_reduce
                   Default_meta_args Default_meta_args,
               DataFrame_parallel_applymap \<mapsto>
                 bargs DF_ApplyMap_get_chunks DF_ApplyMap_worker DF_reduce
                   Default_meta_args Default_meta_args,
               Series_parallel_apply \<mapsto>
                 bargs S_get_chunks S_Apply_worker S_reduce
                   Default_meta_args Default_meta_args,
               Series_parallel_map \<mapsto>
                 bargs S_get_chunks S_Map_worker S_reduce
                   Default_meta_args Default_meta_args,
               Rolling_parallel_apply \<mapsto>
                 bargs SR_get_chunks SR_worker SR_reduce
                   SR_att2value Default_meta_args,
               DataFrameGroupBy_parallel_apply \<mapsto>
                 bargs0 DFGB_get_chunks DFGB_worker DFGB_reduce
                   Default_meta_args DFGB_get_index,
               RollingGroupby_parallel_apply \<mapsto>
                 bargs RGB_get_chunks RGB_worker RGB_reduce
                   SR_att2value Default_meta_args)))"

section \<open>Progress injection\<close>

text \<open>
  The messages workers put on the queue, \<^verbatim>\<open>(message_type, message)\<close> in the source:
  \<^verbatim>\<open>(INPUT_FILE_READ, index)\<close>, \<^verbatim>\<open>(PROGRESSION, (index, iteration))\<close>,
  \<^verbatim>\<open>(VALUE, index)\<close> and \<^verbatim>\<open>(ERROR, index)\<close>.
\<close>

datatype message =
    MInputFileRead nat
  | MProgression nat nat
  | MValue nat
  | MError nat

fun message_type :: "message \<Rightarrow> nat" where
  "message_type (MInputFileRead _) = INPUT_FILE_READ"
| "message_type (MProgression _ _) = PROGRESSION"
| "message_type (MValue _) = VALUE"
| "message_type (MError _) = ERROR"

text \<open>
  The two entries \<open>wrap\<close> stores in the context dictionary, in which the injected code
  runs: \<^verbatim>\<open>pandarallel_counter\<close>, an \<^verbatim>\<open>itertools.count()\<close> (represented by
  the number it yields next), and \<^verbatim>\<open>pandarallel_queue\<close> (represented by the
  messages on the queue the handle denotes; the queue of \<^verbatim>\<open>Manager().Queue()\<close>
  has no bound, so \<^verbatim>\<open>put_nowait\<close> appends).
\<close>

record py_context =
  pandarallel_counter :: nat
  pandarallel_queue :: "message list"

text \<open>
  A user function takes one argument and returns or raises.  A function that runs in a
  context reads and updates it.
\<close>

type_synonym ('x, 'y) user_func = "'x \<Rightarrow> py_error + 'y"
type_synonym ('x, 'y) ctx_func = "py_context \<Rightarrow> 'x \<Rightarrow> (py_error + 'y) \<times> py_context"

text \<open>
  The code \<open>wrap\<close> adds, for a period and a worker index:
  \<^verbatim>\<open>
    iteration = next(pandarallel_counter)
    if not iteration % {period}:
        pandarallel_queue.put_nowait(({progression}, ({index}, iteration)))
  \<close>
  Python's \<^verbatim>\<open>%\<close> raises \<^verbatim>\<open>ZeroDivisionError\<close> when the period is 0; the counter
  has been advanced by then.
\<close>

definition to_add :: "nat \<Rightarrow> nat \<Rightarrow> py_context \<Rightarrow> (py_error + unit) \<times> py_context" where
  "to_add period index ctx =
    (let iteration = pandarallel_counter ctx;
         ctx1 = ctx\<lparr>pandarallel_counter := iteration + 1\<rparr>
     in if period = 0 then (Inl ZeroDivisionError, ctx1)
        else if iteration mod period = 0
        then (Inr (), ctx1\<lparr>pandarallel_queue :=
                pandarallel_queue ctx1 @ [MProgression index iteration]\<rparr>)
        else (Inr (), ctx1))"

text \<open>
  Modelled from the spec: \<^verbatim>\<open>inliner_trick\<close> is called by \<open>wrap\<close> and is not
  defined in \<^verbatim>\<open>pandarallel.py\<close>.  The spec: the injected function, "on every
  invocation, advances a counter and [...] pushes a non-blocking Progress message, then
  proceeds to execute the original body unchanged".  So the function built from
  \<open>func\<close> and the added code runs the added code first, then the body of \<open>func\<close>;
  an exception of the added code leaves the function.  (The source gets the text of
  that function from \<^verbatim>\<open>inliner_trick\<close> and runs \<^verbatim>\<open>exec\<close> on it in the
  context, which defines \<^verbatim>\<open>progress_func\<close>.)
\<close>

definition inliner_trick ::
  "('x, 'y) user_func \<Rightarrow> (py_context \<Rightarrow> (py_error + unit) \<times> py_context) \<Rightarrow> ('x, 'y) ctx_func" where
  "inliner_trick func added = (\<lambda>ctx x.
     case added ctx of
       (Inl e, ctx') \<Rightarrow> (Inl e, ctx')
     | (Inr _, ctx') \<Rightarrow> (func x, ctx'))"

text \<open>
  \<^verbatim>\<open>wrap(context, progress_bar, index, queue, period)(func)\<close>: the context after the
  two assignments, and the function returned.  Without a progress bar that is \<open>func\<close>
  itself, which does not touch the context.
\<close>

definition wrap ::
  "py_context \<Rightarrow> bool \<Rightarrow> nat \<Rightarrow> message list \<Rightarrow> nat \<Rightarrow> ('x, 'y) user_func
    \<Rightarrow> py_context \<times> ('x, 'y) ctx_func" where
  "wrap ctx progress_bar index queue period func =
    (let ctx' = ctx\<lparr>pandarallel_counter := 0, pandarallel_queue := queue\<rparr>
     in (ctx',
         if progress_bar then inliner_trick func (to_add period index)
         else (\<lambda>c x. (func x, c))))"

section \<open>Temporary files and work items\<close>

text \<open>
  What a file holds: nothing yet, a pickled chunk or a pickled result.  A chunk is a
  sequence of elements; \<^verbatim>\<open>len(chunk)\<close> is its length.
\<close>

datatype ('x, 'r) blob = EmptyFile | PickledChunk "'x list" | PickledResult 'r

text \<open>
  The state the coordinator and the workers share: the random parts the operating
  system will give to the names of the next temporary files (none left: the creation
  fails), the \<^verbatim>\<open>NamedTemporaryFile\<close> objects that are open (by name; closing one
  deletes its file), the files by path, the messages on the manager's queue, and the
  context dictionary.  A temporary file is closed by an explicit \<^verbatim>\<open>close()\<close> only:
  finalisation by the garbage collector is not part of the model.
\<close>

record ('x, 'r) world =
  w_tmp_supply :: "string list"
  w_open_tempfiles :: "string list"
  w_contents :: "string \<rightharpoonup> ('x, 'r) blob"
  w_queue :: "message list"
  w_context :: py_context

text \<open>
  \<^verbatim>\<open>NamedTemporaryFile(prefix=..., suffix=..., dir=...)\<close>: the file
  \<^verbatim>\<open>dir/prefix<random>suffix\<close> is created empty and its object returned; the object
  is identified with its \<^verbatim>\<open>name\<close>.
\<close>

definition NamedTemporaryFile ::
  "string \<Rightarrow> string \<Rightarrow> string \<Rightarrow> ('x, 'r) world \<Rightarrow> (py_error + string) \<times> ('x, 'r) world" where
  "NamedTemporaryFile prefix_arg suffix_arg dir w =
    (case w_tmp_supply w of
       [] \<Rightarrow> (Inl OSError, w)
     | rnd # rest \<Rightarrow>
         (let name = dir @ ''/'' @ prefix_arg @ rnd @ suffix_arg
          in (Inr name,
              w\<lparr>w_tmp_supply := rest,
                w_open_tempfiles := w_open_tempfiles w @ [name],
                w_contents := (w_contents w)(name \<mapsto> EmptyFile)\<rparr>)))"

definition close_tempfile :: "string \<Rightarrow> ('x, 'r) world \<Rightarrow> ('x, 'r) world" where
  "close_tempfile name w =
    (if name \<in> set (w_open_tempfiles w)
     then w\<lparr>w_open_tempfiles := removeAll name (w_open_tempfiles w),
            w_contents := (w_contents w)(name := None)\<rparr>
     else w)"

text \<open>
  \<^verbatim>\<open>[NamedTemporaryFile(prefix=PREFIX_INPUT, suffix=SUFFIX, dir=MEMORY_FS_ROOT)
    for _ in range(nb_files)]\<close>
\<close>

fun create_temp_files ::
  "nat \<Rightarrow> ('x, 'r) world \<Rightarrow> (py_error + string list) \<times> ('x, 'r) world" where
  "create_temp_files 0 w = (Inr [], w)"
| "create_temp_files (Suc n) w =
    (case NamedTemporaryFile PREFIX_INPUT SUFFIX MEMORY_FS_ROOT w of
       (Inl e, w') \<Rightarrow> (Inl e, w')
     | (Inr file, w') \<Rightarrow>
         (case create_temp_files n w' of
            (Inl e, w'') \<Rightarrow> (Inl e, w'')
          | (Inr files, w'') \<Rightarrow> (Inr (file # files), w'')))"

text \<open>
  A work item.  In the source it is a tuple, of eight components with the memory file
  system and of seven without; the queue handle in it denotes the one queue of the
  \<open>world\<close>.  \<^verbatim>\<open>dill.dumps\<close> of the wrapped function keeps it with the context
  it was made in.
\<close>

datatype ('x, 'y, 'm, 'a) worker_args =
    MemArgs string string nat 'm "py_context \<times> ('x, 'y) ctx_func" 'a
  | DirectArgs "'x list" nat 'm "py_context \<times> ('x, 'y) ctx_func" 'a

text \<open>
  \<^verbatim>\<open>dump_and_get_lenght(chunk, input_file)\<close>: the chunk is pickled into the file
  of that name, which \<^verbatim>\<open>open(..., "wb")\<close> has truncated; \<open>picklable\<close> says
  for which chunks \<^verbatim>\<open>pickle.dump\<close> succeeds.
\<close>

definition dump_and_get_lenght ::
  "('x list \<Rightarrow> bool) \<Rightarrow> 'x list \<Rightarrow> string \<Rightarrow> ('x, 'r) world \<Rightarrow> (py_error + nat) \<times> ('x, 'r) world" where
  "dump_and_get_lenght picklable chunk input_file w =
    (if picklable chunk
     then (Inr (length chunk), w\<lparr>w_contents := (w_contents w)(input_file \<mapsto> PickledChunk chunk)\<rparr>)
     else (Inl PicklingError, w\<lparr>w_contents := (w_contents w)(input_file \<mapsto> EmptyFile)\<rparr>))"

fun dump_chunks ::
  "('x list \<Rightarrow> bool) \<Rightarrow> ('x list \<times> string) list \<Rightarrow> ('x, 'r) world
    \<Rightarrow> (py_error + nat list) \<times> ('x, 'r) world" where
  "dump_chunks picklable [] w = (Inr [], w)"
| "dump_chunks picklable ((chunk, input_file) # rest) w =
    (case dump_and_get_lenght picklable chunk input_file w of
       (Inl e, w') \<Rightarrow> (Inl e, w')
     | (Inr n, w') \<Rightarrow>
         (case dump_chunks picklable rest w' of
            (Inl e, w'') \<Rightarrow> (Inl e, w'')
          | (Inr ns, w'') \<Rightarrow> (Inr (n # ns), w'')))"

text \<open>The two list comprehensions that build the work items; each runs \<open>wrap\<close>.\<close>

fun memory_workers_args ::
  "bool \<Rightarrow> 'm \<Rightarrow> message list \<Rightarrow> ('x, 'y) user_func \<Rightarrow> 'a
    \<Rightarrow> (nat \<times> string \<times> string \<times> nat) list \<Rightarrow> py_context
    \<Rightarrow> ('x, 'y, 'm, 'a) worker_args list \<times> py_context" where
  "memory_workers_args progress_bar worker_meta_args queue func args [] ctx = ([], ctx)"
| "memory_workers_args progress_bar worker_meta_args queue func args
      ((index, input_file, output_file, chunk_length) # rest) ctx =
    (let wrapped = wrap ctx progress_bar index queue (chunk_length div 100) func;
         (items, ctx') =
           memory_workers_args progress_bar worker_meta_args queue func args rest (fst wrapped)
     in (MemArgs input_file output_file index worker_meta_args wrapped args # items, ctx'))"

fun direct_workers_args ::
  "bool \<Rightarrow> 'm \<Rightarrow> message list \<Rightarrow> ('x, 'y) user_func \<Rightarrow> 'a
    \<Rightarrow> (nat \<times> 'x list) list \<Rightarrow> py_context
    \<Rightarrow> (('x, 'y, 'm, 'a) worker_args \<times> nat) list \<times> py_context" where
  "direct_workers_args progress_bar worker_meta_args queue func args [] ctx = ([], ctx)"
| "direct_workers_args progress_bar worker_meta_args queue func args ((index, chunk) # rest) ctx =
    (let wrapped = wrap ctx progress_bar index queue (length chunk div 100) func;
         (items, ctx') =
           direct_workers_args progress_bar worker_meta_args queue func args rest (fst wrapped)
     in ((DirectArgs chunk index worker_meta_args wrapped args, length chunk) # items, ctx'))"

text \<open>
  \<open>get_workers_args\<close>; the context and the queue of the source's arguments are those
  of the \<open>world\<close>.  Without the memory file system the source unpacks
  \<^verbatim>\<open>zip(*[...])\<close> into two names, which raises \<^verbatim>\<open>ValueError\<close> when there is no
  chunk.
\<close>

definition get_workers_args ::
  "bool \<Rightarrow> nat \<Rightarrow> bool \<Rightarrow> ('x list \<Rightarrow> bool) \<Rightarrow> 'x list list \<Rightarrow> 'm \<Rightarrow> ('x, 'y) user_func \<Rightarrow> 'a
    \<Rightarrow> ('x, 'r) world
    \<Rightarrow> (py_error + (('x, 'y, 'm, 'a) worker_args list \<times> nat list \<times> string list \<times> string list))
        \<times> ('x, 'r) world" where
  "get_workers_args use_memory_fs nb_workers progress_bar picklable chunks worker_meta_args
      func args w =
    (if use_memory_fs then
       (case create_temp_files nb_workers w of
          (Inl e, w1) \<Rightarrow> (Inl e, w1)
        | (Inr input_files, w1) \<Rightarrow>
       (case create_temp_files nb_workers w1 of
          (Inl e, w2) \<Rightarrow> (Inl e, w2)
        | (Inr output_files, w2) \<Rightarrow>
       (case dump_chunks picklable (zip chunks input_files) w2 of
          (Inl e, w3) \<Rightarrow> (Inl e, w3)
        | (Inr chunk_lengths, w3) \<Rightarrow>
            (let (workers_args, ctx') =
                   memory_workers_args progress_bar worker_meta_args (w_queue w3) func args
                     (enumerate 0 (zip input_files (zip output_files chunk_lengths)))
                     (w_context w3)
             in (Inr (workers_args, chunk_lengths, input_files, output_files),
                 w3\<lparr>w_context := ctx'\<rparr>)))))
     else
       (let (pairs, ctx') =
              direct_workers_args progress_bar worker_meta_args (w_queue w) func args
                (enumerate 0 chunks) (w_context w)
        in if pairs = []
           then (Inl (ValueError ''not enough values to unpack (expected 2, got 0)''),
                 w\<lparr>w_context := ctx'\<rparr>)
           else (Inr (map fst pairs, map snd pairs, [], []), w\<lparr>w_context := ctx'\<rparr>)))"

section \<open>Workers and the pool\<close>

text \<open>
  The adapter's worker function: called with the chunk, the index, the worker's meta
  arguments, the (wrapped) user function and the extra arguments; it runs in the
  worker's copy of the context of the wrapped function.
\<close>

type_synonym ('x, 'y, 'm, 'a, 'r) worker_function =
  "'x list \<Rightarrow> nat \<Rightarrow> 'm \<Rightarrow> ('x, 'y) ctx_func \<Rightarrow> 'a \<Rightarrow> py_context \<Rightarrow> (py_error + 'r) \<times> py_context"

text \<open>
  \<^verbatim>\<open>prepare_worker(use_memory_fs)(function)(worker_args)\<close>: what a worker process
  does with one work item.  With the memory file system it returns \<^verbatim>\<open>None\<close>.  A work
  item of the other shape fails to unpack, before the \<^verbatim>\<open>try\<close>.
\<close>

definition run_function ::
  "('x, 'y, 'm, 'a, 'r) worker_function \<Rightarrow> 'x list \<Rightarrow> nat \<Rightarrow> 'm
    \<Rightarrow> py_context \<times> ('x, 'y) ctx_func \<Rightarrow> 'a \<Rightarrow> ('x, 'r) world
    \<Rightarrow> (py_error + 'r) \<times> ('x, 'r) world" where
  "run_function function data index meta_args dilled_func args w =
    (let (res, ctx') =
           function data index meta_args (snd dilled_func) args
             ((fst dilled_func)\<lparr>pandarallel_queue := w_queue w\<rparr>)
     in (res, w\<lparr>w_queue := pandarallel_queue ctx'\<rparr>))"

definition queue_put :: "message \<Rightarrow> ('x, 'r) world \<Rightarrow> ('x, 'r) world" where
  "queue_put m w = w\<lparr>w_queue := w_queue w @ [m]\<rparr>"

definition prepare_worker ::
  "bool \<Rightarrow> ('x, 'y, 'm, 'a, 'r) worker_function \<Rightarrow> ('x, 'y, 'm, 'a) worker_args
    \<Rightarrow> ('x, 'r) world \<Rightarrow> (py_error + 'r option) \<times> ('x, 'r) world" where
  "prepare_worker use_memory_fs function worker_args w =
    (if use_memory_fs then
       (case worker_args of
          MemArgs input_file_path output_file_path index meta_args dilled_func args \<Rightarrow>
            (case w_contents w input_file_path of
               None \<Rightarrow> (Inl (FileNotFoundError input_file_path), queue_put (MError index) w)
             | Some EmptyFile \<Rightarrow> (Inl EOFError, queue_put (MError index) w)
             | Some (PickledResult _) \<Rightarrow> (Inl (TypeError ''not a chunk''), queue_put (MError index) w)
             | Some (PickledChunk data) \<Rightarrow>
                 (case run_function function data index meta_args dilled_func args
                         (queue_put (MInputFileRead index) w) of
                    (Inl e, w') \<Rightarrow> (Inl e, queue_put (MError index) w')
                  | (Inr result, w') \<Rightarrow>
                      (Inr None,
                       queue_put (MValue index)
                         (w'\<lparr>w_contents := (w_contents w')(output_file_path \<mapsto> PickledResult result)\<rparr>))))
        | DirectArgs _ _ _ _ _ \<Rightarrow>
            (Inl (ValueError ''not enough values to unpack (expected 8, got 7)''), w))
     else
       (case worker_args of
          DirectArgs data index meta_args dilled_func args \<Rightarrow>
            (case run_function function data index meta_args dilled_func args w of
               (Inl e, w') \<Rightarrow> (Inl e, queue_put (MError index) w')
             | (Inr result, w') \<Rightarrow> (Inr (Some result), queue_put (MValue index) w'))
        | MemArgs _ _ _ _ _ _ \<Rightarrow>
            (Inl (ValueError ''too many values to unpack (expected 7)''), w)))"

text \<open>
  The result handle of \<^verbatim>\<open>pool.map_async\<close>: one slot per work item, filled when the
  item is done, and the first failure in the order of completion.
\<close>

record 'r map_result =
  mr_slots :: "(py_error + 'r option) option list"
  mr_first_error :: "py_error option"

definition map_async :: "nat \<Rightarrow> 'r map_result" where
  "map_async n = \<lparr> mr_slots = replicate n None, mr_first_error = None \<rparr>"

definition set_slot :: "nat \<Rightarrow> py_error + 'r option \<Rightarrow> 'r map_result \<Rightarrow> 'r map_result" where
  "set_slot i res mr =
    \<lparr> mr_slots = (mr_slots mr)[i := Some res],
      mr_first_error =
        (case (res, mr_first_error mr) of (Inl e, None) \<Rightarrow> Some e | (_, fe) \<Rightarrow> fe) \<rparr>"

text \<open>
  The pool runs the work items; each item runs once, as a whole.  The schedule is the
  order in which the items complete: an item that is not in it never completes, a
  number that is not an item's, or that comes a second time, runs nothing.
\<close>

fun run_pool ::
  "(('x, 'y, 'm, 'a) worker_args \<Rightarrow> ('x, 'r) world \<Rightarrow> (py_error + 'r option) \<times> ('x, 'r) world)
    \<Rightarrow> ('x, 'y, 'm, 'a) worker_args list \<Rightarrow> nat list \<Rightarrow> 'r map_result \<Rightarrow> ('x, 'r) world
    \<Rightarrow> 'r map_result \<times> ('x, 'r) world" where
  "run_pool global_worker workers_args [] mr w = (mr, w)"
| "run_pool global_worker workers_args (i # schedule) mr w =
    (if i < length workers_args \<and> mr_slots mr ! i = None
     then (case global_worker (workers_args ! i) w of
             (res, w') \<Rightarrow> run_pool global_worker workers_args schedule (set_slot i res mr) w')
     else run_pool global_worker workers_args schedule mr w)"

text \<open>
  \<^verbatim>\<open>map_result.get()\<close> waits until every item is done (\<open>None\<close>: one never is), then
  raises the first failure or returns the results in the order of the items.
\<close>

fun slot_values :: "(py_error + 'r option) option list \<Rightarrow> 'r option list" where
  "slot_values [] = []"
| "slot_values (Some (Inr v) # rest) = v # slot_values rest"
| "slot_values (_ # rest) = slot_values rest"

definition map_result_get :: "'r map_result \<Rightarrow> (py_error + 'r option list) option" where
  "map_result_get mr =
    (if None \<in> set (mr_slots mr) then None
     else (case mr_first_error mr of
             Some e \<Rightarrow> Some (Inl e)
           | None \<Rightarrow> Some (Inr (slot_values (mr_slots mr)))))"

section \<open>The progress aggregator\<close>

text \<open>
  The variables of \<open>get_workers_result\<close>.  \<^verbatim>\<open>progresses\<close> and the progress bars exist
  only with \<^verbatim>\<open>show_progress_bar\<close>; of the bars (an object of another module) the
  state keeps what was shown: each \<^verbatim>\<open>update\<close> and each \<^verbatim>\<open>set_error\<close>.
  \<^verbatim>\<open>finished_workers\<close> starts as \<^verbatim>\<open>[False] * nb_workers\<close>, and an entry becomes
  \<open>VALUE\<close> or \<open>ERROR\<close>; \<^verbatim>\<open>False\<close> is the integer 0.
\<close>

record agg_state =
  progresses :: "nat list option"
  finished_workers :: "nat list"
  generation :: nat
  bars_updates :: "nat list list"
  bars_errors :: "nat list"

definition init_agg_state :: "nat \<Rightarrow> bool \<Rightarrow> agg_state" where
  "init_agg_state nb_workers show_progress_bar =
    \<lparr> progresses = (if show_progress_bar then Some (replicate nb_workers 0) else None),
      finished_workers = replicate nb_workers 0,
      generation = 0,
      bars_updates = [],
      bars_errors = [] \<rparr>"

text \<open>Python's \<^verbatim>\<open>all\<close> on a list of integers.\<close>

definition py_all :: "nat list \<Rightarrow> bool" where
  "py_all xs = list_all (\<lambda>x. x \<noteq> 0) xs"

text \<open>
  \<^verbatim>\<open>progress_bars.update(progresses)\<close>, and the same after
  \<^verbatim>\<open>progresses[worker_index] = v\<close>; a name that was never assigned raises
  \<^verbatim>\<open>NameError\<close>, an index out of range \<^verbatim>\<open>IndexError\<close>.
\<close>

definition bars_update :: "agg_state \<Rightarrow> py_error + agg_state" where
  "bars_update st =
    (case progresses st of
       None \<Rightarrow> Inl (NameError ''progress_bars'')
     | Some ps \<Rightarrow> Inr (st\<lparr>bars_updates := bars_updates st @ [ps]\<rparr>))"

definition set_progress :: "nat \<Rightarrow> nat \<Rightarrow> agg_state \<Rightarrow> py_error + agg_state" where
  "set_progress worker_index v st =
    (case progresses st of
       None \<Rightarrow> Inl (NameError ''progresses'')
     | Some ps \<Rightarrow>
         if worker_index < length ps
         then Inr (st\<lparr>progresses := Some (ps[worker_index := v])\<rparr>)
         else Inl IndexError)"

text \<open>One turn of the loop, for the message \<^verbatim>\<open>queue.get()\<close> returned.\<close>

definition handle_message ::
  "nat \<Rightarrow> bool \<Rightarrow> nat list \<Rightarrow> string list \<Rightarrow> message \<Rightarrow> agg_state \<times> ('x, 'r) world
    \<Rightarrow> py_error + (agg_state \<times> ('x, 'r) world)" where
  "handle_message nb_workers show_progress_bar chunk_lengths input_files m sw =
    (let st = fst sw; w = snd sw in
     case m of
       MInputFileRead file_index \<Rightarrow>
         if file_index < length input_files
         then Inr (st, close_tempfile (input_files ! file_index) w)
         else Inl IndexError
     | MProgression worker_index progression \<Rightarrow>
         (case set_progress worker_index progression st of
            Inl e \<Rightarrow> Inl e
          | Inr st1 \<Rightarrow>
              if nb_workers = 0 then Inl ZeroDivisionError
              else if generation st1 mod nb_workers = 0
              then (case bars_update st1 of
                      Inl e \<Rightarrow> Inl e
                    | Inr st2 \<Rightarrow> Inr (st2\<lparr>generation := generation st2 + 1\<rparr>, w))
              else Inr (st1\<lparr>generation := generation st1 + 1\<rparr>, w))
     | MValue worker_index \<Rightarrow>
         if worker_index < length (finished_workers st)
         then (let st1 = st\<lparr>finished_workers := (finished_workers st)[worker_index := VALUE]\<rparr>
               in if show_progress_bar
                  then (if worker_index < length chunk_lengths
                        then (case set_progress worker_index (chunk_lengths ! worker_index) st1 of
                                Inl e \<Rightarrow> Inl e
                              | Inr st2 \<Rightarrow>
                                  (case bars_update st2 of
                                     Inl e \<Rightarrow> Inl e
                                   | Inr st3 \<Rightarrow> Inr (st3, w)))
                        else Inl IndexError)
                  else Inr (st1, w))
         else Inl IndexError
     | MError worker_index \<Rightarrow>
         if worker_index < length (finished_workers st)
         then (let st1 = st\<lparr>finished_workers := (finished_workers st)[worker_index := ERROR]\<rparr>
               in if show_progress_bar
                  then (case bars_update (st1\<lparr>bars_errors := bars_errors st1 @ [worker_index]\<rparr>) of
                          Inl e \<Rightarrow> Inl e
                        | Inr st2 \<Rightarrow> Inr (st2, w))
                  else Inr (st1, w))
         else Inl IndexError)"

text \<open>
  \<^verbatim>\<open>while not all(finished_workers): message_type, message = queue.get() ...\<close>
  over the messages the queue will deliver, in their order.  \<^verbatim>\<open>queue.get()\<close> has no
  timeout: with no message left it waits for ever, and the loop does not return
  (\<open>None\<close>).  Otherwise the loop ends with the state and the messages it has not read,
  or with the exception of a turn.
\<close>

fun aggregate ::
  "nat \<Rightarrow> bool \<Rightarrow> nat list \<Rightarrow> string list \<Rightarrow> message list \<Rightarrow> agg_state \<times> ('x, 'r) world
    \<Rightarrow> ((py_error + agg_state) \<times> ('x, 'r) world \<times> message list) option" where
  "aggregate nb_workers show_progress_bar chunk_lengths input_files [] sw =
    (if py_all (finished_workers (fst sw)) then Some (Inr (fst sw), snd sw, []) else None)"
| "aggregate nb_workers show_progress_bar chunk_lengths input_files (m # ms) sw =
    (if py_all (finished_workers (fst sw)) then Some (Inr (fst sw), snd sw, m # ms)
     else (case handle_message nb_workers show_progress_bar chunk_lengths input_files m sw of
             Inl e \<Rightarrow> Some (Inl e, snd sw, ms)
           | Inr sw' \<Rightarrow> aggregate nb_workers show_progress_bar chunk_lengths input_files ms sw'))"

text \<open>
  \<^verbatim>\<open>pickle.load(output_file)\<close>, for each output file in turn: the coordinator reads
  through the object it holds.
\<close>

fun load_outputs :: "string list \<Rightarrow> ('x, 'r) world \<Rightarrow> py_error + 'r list" where
  "load_outputs [] w = Inr []"
| "load_outputs (file # files) w =
    (case w_contents w file of
       None \<Rightarrow> Inl (ValueError ''I/O operation on closed file'')
     | Some EmptyFile \<Rightarrow> Inl EOFError
     | Some (PickledChunk _) \<Rightarrow> Inl (TypeError ''not a result'')
     | Some (PickledResult r) \<Rightarrow>
         (case load_outputs files w of Inl e \<Rightarrow> Inl e | Inr rs \<Rightarrow> Inr (r # rs)))"

text \<open>
  In direct mode the results are what the workers returned; \<^verbatim>\<open>None\<close> is returned
  only with the memory file system.
\<close>

fun direct_results :: "'r option list \<Rightarrow> py_error + 'r list" where
  "direct_results [] = Inr []"
| "direct_results (None # rest) = Inl (TypeError ''NoneType'')"
| "direct_results (Some r # rest) =
    (case direct_results rest of Inl e \<Rightarrow> Inl e | Inr rs \<Rightarrow> Inr (r # rs))"

text \<open>
  \<open>get_workers_result\<close>: the loop, then \<^verbatim>\<open>map_result.get()\<close>, then the output files
  or the results of the handle.  The world's queue is left with the messages not read.
\<close>

definition get_workers_result ::
  "bool \<Rightarrow> nat \<Rightarrow> bool \<Rightarrow> nat list \<Rightarrow> string list \<Rightarrow> string list \<Rightarrow> 'r map_result
    \<Rightarrow> ('x, 'r) world \<Rightarrow> ((py_error + 'r list) \<times> ('x, 'r) world) option" where
  "get_workers_result use_memory_fs nb_workers show_progress_bar chunk_lengths input_files
      output_files map_result w =
    (case aggregate nb_workers show_progress_bar chunk_lengths input_files (w_queue w)
            (init_agg_state nb_workers show_progress_bar, w) of
       None \<Rightarrow> None
     | Some (Inl e, w', rest) \<Rightarrow> Some (Inl e, w'\<lparr>w_queue := rest\<rparr>)
     | Some (Inr st, w', rest) \<Rightarrow>
         (case map_result_get map_result of
            None \<Rightarrow> None
          | Some (Inl e) \<Rightarrow> Some (Inl e, w'\<lparr>w_queue := rest\<rparr>)
          | Some (Inr results) \<Rightarrow>
              Some (if use_memory_fs then load_outputs output_files w'
                    else direct_results results,
                    w'\<lparr>w_queue := rest\<rparr>)))"

section \<open>The coordinator\<close>

text \<open>\<^verbatim>\<open>for file in input_files + output_files: file.close()\<close>\<close>

fun close_all :: "string list \<Rightarrow> ('x, 'r) world \<Rightarrow> ('x, 'r) world" where
  "close_all [] w = w"
| "close_all (file # files) w = close_all files (close_tempfile file w)"

text \<open>
  The closure \<open>parallelize\<close> returns, called with the data, the user function and the
  extra arguments.  \<open>picklable\<close> and \<open>schedule\<close> are the environment: which chunks
  pickle, and in which order the pool completes the work items.  The pool and the
  coordinator run at the same time in the source; here the pool runs first and the
  coordinator reads the queue afterwards, which gives the coordinator the same
  messages in the same order.  \<^verbatim>\<open>Pool(nb_workers, ...)\<close> raises \<^verbatim>\<open>ValueError\<close>
  for no worker.  \<open>None\<close>: the call does not return.
\<close>

definition closure ::
  "('c, nat \<Rightarrow> 'd \<Rightarrow> 'a \<Rightarrow> py_error + 'x list list, ('x, 'y, 'm, 'a, 'r) worker_function,
      'r list \<Rightarrow> 'n \<Rightarrow> py_error + 'o, 'd \<Rightarrow> 'm, 'd \<Rightarrow> 'n) parallelized
    \<Rightarrow> ('x list \<Rightarrow> bool) \<Rightarrow> nat list \<Rightarrow> 'd \<Rightarrow> ('x, 'y) user_func \<Rightarrow> 'a \<Rightarrow> ('x, 'r) world
    \<Rightarrow> ((py_error + 'o) \<times> ('x, 'r) world) option" where
  "closure p picklable schedule data func args w0 =
    (let nb_workers = p_nb_workers p;
         use_memory_fs = p_use_memory_fs p;
         progress_bar = p_progress_bar p
     in
     case p_get_chunks p nb_workers data args of
       Inl e \<Rightarrow> Some (Inl e, w0)
     | Inr chunks \<Rightarrow>
     (let worker_meta_args = p_get_worker_meta_args p data;
          reduce_meta_args = p_get_reduce_meta_args p data;
          w = w0\<lparr>w_queue := []\<rparr>
      in
      case get_workers_args use_memory_fs nb_workers progress_bar picklable chunks
             worker_meta_args func args w of
        (Inl e, w1) \<Rightarrow> Some (Inl e, w1)
      | (Inr (workers_args, chunk_lengths, input_files, output_files), w1) \<Rightarrow>
          (let finally = (\<lambda>w'. if use_memory_fs then close_all (input_files @ output_files) w'
                               else w')
           in
           if nb_workers = 0
           then Some (Inl (ValueError ''Number of processes must be at least 1''), finally w1)
           else
             (case run_pool (prepare_worker use_memory_fs (p_worker p)) workers_args schedule
                     (map_async (length workers_args)) w1 of
                (map_result, w2) \<Rightarrow>
                  (case get_workers_result use_memory_fs nb_workers progress_bar chunk_lengths
                          input_files output_files map_result w2 of
                     None \<Rightarrow> None
                   | Some (Inl e, w3) \<Rightarrow> Some (Inl e, finally w3)
                   | Some (Inr results, w3) \<Rightarrow>
                       Some (p_reduce p results reduce_meta_args, finally w3))))))"

section \<open>The instrumentor: partial application by rewriting the bytecode\<close>

text \<open>
  Bytes are 8-bit words; \<^verbatim>\<open>c_uint8(n)\<close> keeps the low eight bits of \<open>n\<close>.  The
  three opcodes the module names by their characters: \<^verbatim>\<open>b"|"\<close> is
  \<^verbatim>\<open>LOAD_FAST\<close>, \<^verbatim>\<open>b"}"\<close> is \<^verbatim>\<open>STORE_FAST\<close> and \<^verbatim>\<open>b"d"\<close> is
  \<^verbatim>\<open>LOAD_CONST\<close>.
\<close>

type_synonym byte = "8 word"

definition c_uint8 :: "nat \<Rightarrow> byte" where
  "c_uint8 n = of_nat n"

definition LOAD_FAST :: byte where "LOAD_FAST = 124"
definition STORE_FAST :: byte where "STORE_FAST = 125"
definition LOAD_CONST :: byte where "LOAD_CONST = 100"

text \<open>
  A Python dictionary keeps its keys in the order they were first inserted; setting
  a key that is there replaces its value in place.  A dictionary comprehension sets
  its items one after the other.
\<close>

fun dict_set :: "'k \<Rightarrow> 'v \<Rightarrow> ('k \<times> 'v) list \<Rightarrow> ('k \<times> 'v) list" where
  "dict_set k v [] = [(k, v)]"
| "dict_set k v ((k', v') # d) =
    (if k' = k then (k', v) # d else (k', v') # dict_set k v d)"

definition dict_of :: "('k \<times> 'v) list \<Rightarrow> ('k \<times> 'v) list" where
  "dict_of kvs = foldl (\<lambda>d (k, v). dict_set k v d) [] kvs"

text \<open>
  \<^verbatim>\<open>replace(string, substitutions)\<close>.  The keys, longest first
  (\<^verbatim>\<open>sorted(substitutions, key=len, reverse=True)\<close>, a stable sort), are the
  alternatives of the regular expression.  At a position the expression matches the
  first alternative that is a prefix of the rest of the string; with no key at all
  the pattern is empty and matches the empty string everywhere.
  \<^verbatim>\<open>regex.sub\<close> goes through the string from the left: a match is replaced by
  \<^verbatim>\<open>substitutions[match.group(0)]\<close> (a \<^verbatim>\<open>KeyError\<close> when the matched text is no
  key) and the scan goes on behind it; where nothing matches the byte is copied.
  An empty match is replaced and the byte behind it copied.
\<close>

fun match_at :: "byte list list \<Rightarrow> byte list \<Rightarrow> byte list option" where
  "match_at [] rest = None"
| "match_at (k # ks) rest = (if prefix k rest then Some k else match_at ks rest)"

definition regex_match :: "byte list list \<Rightarrow> byte list \<Rightarrow> byte list option" where
  "regex_match substrings rest = (if substrings = [] then Some [] else match_at substrings rest)"

function regex_sub ::
  "(byte list \<times> byte list) list \<Rightarrow> byte list list \<Rightarrow> byte list \<Rightarrow> py_error + byte list" where
  "regex_sub substitutions substrings [] =
    (case regex_match substrings [] of
       None \<Rightarrow> Inr []
     | Some k \<Rightarrow>
         (case map_of substitutions k of
            None \<Rightarrow> Inl (KeyErrorBytes k)
          | Some v \<Rightarrow> Inr v))"
| "regex_sub substitutions substrings (c # cs) =
    (case regex_match substrings (c # cs) of
       None \<Rightarrow> map_sum id ((#) c) (regex_sub substitutions substrings cs)
     | Some k \<Rightarrow>
         (case map_of substitutions k of
            None \<Rightarrow> Inl (KeyErrorBytes k)
          | Some v \<Rightarrow>
              map_sum id ((@) v)
                (if k = [] then map_sum id ((#) c) (regex_sub substitutions substrings cs)
                 else regex_sub substitutions substrings (drop (length k) (c # cs)))))"
  by pat_completeness auto
termination
  by (relation "measure (\<lambda>(substitutions, substrings, string). length string)") auto

definition replace ::
  "byte list \<Rightarrow> (byte list \<times> byte list) list \<Rightarrow> py_error + byte list" where
  "replace string substitutions =
    (let substrings = sort_key (\<lambda>k. - int (length k)) (map fst substitutions)
     in regex_sub substitutions substrings string)"

text \<open>
  The values the model knows: \<^verbatim>\<open>None\<close>, booleans, integers and strings.  Python's
  \<^verbatim>\<open>==\<close> holds between \<^verbatim>\<open>True\<close> and 1 and between \<^verbatim>\<open>False\<close> and 0;
  \<^verbatim>\<open>set\<close> and \<^verbatim>\<open>tuple.index\<close> compare with it.
\<close>

datatype pyval = PNone | PBool bool | PInt int | PStr string

fun py_eq :: "pyval \<Rightarrow> pyval \<Rightarrow> bool" where
  "py_eq (PBool b) (PInt i) = (i = (if b then 1 else 0))"
| "py_eq (PInt i) (PBool b) = (i = (if b then 1 else 0))"
| "py_eq x y = (x = y)"

text \<open>
  \<^verbatim>\<open>tuple_.index(x)\<close>: the position of the first element that equals \<open>x\<close>.  (It is
  the length of the tuple when there is none, where Python raises \<^verbatim>\<open>ValueError\<close>;
  \<open>inlined_partial\<close> only looks up elements that are there.)
\<close>

definition index_by :: "('a \<Rightarrow> bool) \<Rightarrow> 'a list \<Rightarrow> nat" where
  "index_by P xs = length (takeWhile (\<lambda>y. \<not> P y) xs)"

definition tuple_index :: "'a list \<Rightarrow> 'a \<Rightarrow> nat" where
  "tuple_index xs x = index_by (\<lambda>y. y = x) xs"

definition py_tuple_index :: "pyval list \<Rightarrow> pyval \<Rightarrow> nat" where
  "py_tuple_index xs x = index_by (\<lambda>y. py_eq y x) xs"

text \<open>
  \<^verbatim>\<open>tuple(sorted(set(tuple_), key=tuple_.index))\<close>: a set keeps the first of the
  elements that are equal, and the sort puts them in the order of their first
  positions.
\<close>

fun tuple_remove_duplicate :: "pyval list \<Rightarrow> pyval list" where
  "tuple_remove_duplicate [] = []"
| "tuple_remove_duplicate (x # xs) =
    x # tuple_remove_duplicate (filter (\<lambda>y. \<not> py_eq y x) xs)"

definition replace_load_fast_by_load_const ::
  "byte list \<Rightarrow> (nat \<times> nat) list \<Rightarrow> py_error + byte list" where
  "replace_load_fast_by_load_const bytecode varname_index2const_index =
    replace bytecode
      (dict_of (map (\<lambda>(fast_index, const_index).
                       ([LOAD_FAST, c_uint8 fast_index], [LOAD_CONST, c_uint8 const_index]))
                  varname_index2const_index))"

definition replace_fast_by_fast ::
  "byte list \<Rightarrow> (nat \<times> nat) list \<Rightarrow> py_error + byte list" where
  "replace_fast_by_fast bytecode varname_index2varname_new_index =
    (case replace bytecode
            (dict_of (map (\<lambda>(fast_index, fast_new_index).
                             ([STORE_FAST, c_uint8 fast_index], [STORE_FAST, c_uint8 fast_new_index]))
                        varname_index2varname_new_index)) of
       Inl e \<Rightarrow> Inl e
     | Inr bytecode' \<Rightarrow>
         replace bytecode'
           (dict_of (map (\<lambda>(fast_index, fast_new_index).
                            ([LOAD_FAST, c_uint8 fast_index], [LOAD_FAST, c_uint8 fast_new_index]))
                       varname_index2varname_new_index)))"

text \<open>
  Code objects and function objects.  A code object is immutable; function objects
  live in a heap, and a function is the address of its object there.
\<close>

record code =
  co_argcount :: nat
  co_kwonlyargcount :: nat
  co_nlocals :: nat
  co_stacksize :: nat
  co_flags :: nat
  co_code :: "byte list"
  co_consts :: "pyval list"
  co_names :: "string list"
  co_varnames :: "string list"
  co_filename :: string
  co_name :: string
  co_firstlineno :: nat
  co_lnotab :: "byte list"
  co_freevars :: "string list"
  co_cellvars :: "string list"

record func_obj =
  f_code :: code
  f_globals :: nat
  f_name :: string
  f_defaults :: "pyval list"
  f_closure :: "pyval list"
  f_dict :: "(string \<times> pyval) list"

type_synonym heap = "func_obj list"

text \<open>
  \<^verbatim>\<open>copy_func(func, name=None)\<close>: a new function object of the same code,
  globals, defaults and closure, named \<^verbatim>\<open>name or func.__name__\<close>, whose
  \<^verbatim>\<open>__dict__\<close> is then updated with the one of \<open>func\<close>.
\<close>

definition copy_func :: "nat \<Rightarrow> string \<Rightarrow> heap \<Rightarrow> (py_error + nat) \<times> heap" where
  "copy_func func name h =
    (if func < length h then
       (let f = h ! func;
            new_func = \<lparr> f_code = f_code f, f_globals = f_globals f,
                         f_name = (if name = [] then f_name f else name),
                         f_defaults = f_defaults f, f_closure = f_closure f,
                         f_dict = [] \<rparr>;
            new_func' = new_func\<lparr>f_dict :=
                          foldl (\<lambda>d (k, v). dict_set k v d) (f_dict new_func) (f_dict f)\<rparr>
        in (Inr (length h), h @ [new_func']))
     else (Inl (TypeError ''not a function''), h))"

text \<open>
  \<^verbatim>\<open>CodeType(argcount, kwonlyargcount, nlocals, ...)\<close>: the constructor raises
  \<^verbatim>\<open>ValueError\<close> for a negative argument count, which \<open>inlined_partial\<close>
  computes by a subtraction.
\<close>

definition CodeType ::
  "int \<Rightarrow> nat \<Rightarrow> nat \<Rightarrow> nat \<Rightarrow> nat \<Rightarrow> byte list \<Rightarrow> pyval list \<Rightarrow> string list
    \<Rightarrow> string list \<Rightarrow> string \<Rightarrow> string \<Rightarrow> nat \<Rightarrow> byte list \<Rightarrow> string list \<Rightarrow> string list
    \<Rightarrow> py_error + code" where
  "CodeType argcount kwonlyargcount nlocals stacksize flags codestring constants
      names varnames filename name firstlineno lnotab freevars cellvars =
    (if argcount < 0 then Inl (ValueError ''code: argcount must not be negative'')
     else Inr \<lparr> co_argcount = nat argcount, co_kwonlyargcount = kwonlyargcount,
                co_nlocals = nlocals, co_stacksize = stacksize, co_flags = flags,
                co_code = codestring, co_consts = constants, co_names = names,
                co_varnames = varnames, co_filename = filename, co_name = name,
                co_firstlineno = firstlineno, co_lnotab = lnotab, co_freevars = freevars,
                co_cellvars = cellvars \<rparr>)"

text \<open>
  \<open>inlined_partial func name arg_name2value\<close>.  The keyword arguments are a
  dictionary, given by its items.  \<open>set_order\<close> is the order in which Python
  iterates over the set \<^verbatim>\<open>set(fcode.co_varnames) - set(arg_name2value.keys())\<close>;
  the language does not fix it (for strings it changes with the hash seed of the
  process).  The result is the new function or the exception, and the heap.
\<close>

definition inlined_partial ::
  "(string list \<Rightarrow> string list) \<Rightarrow> nat \<Rightarrow> string \<Rightarrow> (string \<times> pyval) list \<Rightarrow> heap
    \<Rightarrow> (py_error + nat) \<times> heap" where
  "inlined_partial set_order func name arg_name2value h =
    (if \<not> func < length h then (Inl (TypeError ''not a function''), h)
     else
       let fcode = f_code (h ! func) in
       case find (\<lambda>arg_name. arg_name \<notin> set (co_varnames fcode)) (map fst arg_name2value) of
         Some arg_name \<Rightarrow>
           (Inl (KeyError (arg_name @ '' is not an argument of '' @ f_name (h ! func))), h)
       | None \<Rightarrow>
       (let new_consts = tuple_remove_duplicate (co_consts fcode @ map snd arg_name2value);
            varname_index2new_const_index =
              dict_of (map (\<lambda>(arg_name, v).
                              (tuple_index (co_varnames fcode) arg_name,
                               py_tuple_index new_consts v))
                         arg_name2value);
            new_varnames =
              set_order (filter (\<lambda>v. v \<notin> set (map fst arg_name2value))
                           (remdups (co_varnames fcode)));
            varname_index2varname_new_index =
              dict_of (map (\<lambda>arg_name.
                              (tuple_index (co_varnames fcode) arg_name,
                               tuple_index new_varnames arg_name))
                         new_varnames)
        in
        case replace_load_fast_by_load_const (co_code fcode) varname_index2new_const_index of
          Inl e \<Rightarrow> (Inl e, h)
        | Inr new_co_code1 \<Rightarrow>
        (case replace_fast_by_fast new_co_code1 varname_index2varname_new_index of
           Inl e \<Rightarrow> (Inl e, h)
         | Inr new_co_code \<Rightarrow>
         (case copy_func func name h of
            (Inl e, h1) \<Rightarrow> (Inl e, h1)
          | (Inr new_func, h1) \<Rightarrow>
              (let nfcode = f_code (h1 ! new_func) in
               case CodeType (int (co_argcount nfcode) - int (length arg_name2value))
                      (co_kwonlyargcount nfcode) (length new_varnames) (co_stacksize nfcode)
                      (co_flags nfcode) new_co_code new_consts (co_names nfcode) new_varnames
                      (co_filename nfcode) name (co_firstlineno nfcode) (co_lnotab nfcode)
                      (co_freevars nfcode) (co_cellvars nfcode) of
                 Inl e \<Rightarrow> (Inl e, h1)
               | Inr c \<Rightarrow> (Inr new_func, h1[new_func := (h1 ! new_func)\<lparr>f_code := c\<rparr>]))))))"

section \<open>Notions used in the statements about the coordinator\<close>

text \<open>The name of the temporary file \<open>create_temp_files\<close> makes from a random part.\<close>

definition tmp_name :: "string \<Rightarrow> string" where
  "tmp_name rnd = MEMORY_FS_ROOT @ ''/'' @ PREFIX_INPUT @ rnd @ SUFFIX"

text \<open>The function \<open>wrap\<close> returns; it depends neither on the context nor on the queue.\<close>

definition wrapped :: "bool \<Rightarrow> nat \<Rightarrow> nat \<Rightarrow> ('x, 'y) user_func \<Rightarrow> ('x, 'y) ctx_func" where
  "wrapped pb i per f = (if pb then inliner_trick f (to_add per i) else (\<lambda>c x. (f x, c)))"

text \<open>
  The result handle records a first failure as soon as a slot holds one.
\<close>

definition first_error_inv :: "'r map_result \<Rightarrow> bool" where
  "first_error_inv mr =
     (mr_first_error mr = None \<longrightarrow> (\<forall>s \<in> set (mr_slots mr). \<forall>e. s \<noteq> Some (Inl e)))"

text \<open>
  What the worker function returns for partition \<open>i\<close>: it is called with the chunk,
  the index, the meta arguments and the user function as \<open>wrap\<close> returns it for that
  index and chunk length, in the context \<open>wrap\<close> made, \<open>q\<close> being what the queue holds
  when the call starts.
\<close>

definition partition_result ::
  "('c, nat \<Rightarrow> 'd \<Rightarrow> 'a \<Rightarrow> py_error + 'x list list, ('x, 'y, 'm, 'a, 'r) worker_function,
      'r list \<Rightarrow> 'n \<Rightarrow> py_error + 'o, 'd \<Rightarrow> 'm, 'd \<Rightarrow> 'n) parallelized
    \<Rightarrow> 'd \<Rightarrow> ('x, 'y) user_func \<Rightarrow> 'a \<Rightarrow> 'x list list \<Rightarrow> nat \<Rightarrow> message list \<Rightarrow> py_error + 'r" where
  "partition_result p data func args chunks i q =
    fst (p_worker p (chunks ! i) i (p_get_worker_meta_args p data)
           (snd (wrap \<lparr>pandarallel_counter = 0, pandarallel_queue = []\<rparr> (p_progress_bar p) i []
                   (length (chunks ! i) div 100) func))
           args \<lparr>pandarallel_counter = 0, pandarallel_queue = q\<rparr>)"

section \<open>Example functions\<close>

text \<open>
  \<^verbatim>\<open>def f(a): t = a; return t\<close>, as CPython 3.7 compiles it:
  \<^verbatim>\<open>LOAD_FAST 0; STORE_FAST 1; LOAD_FAST 1; RETURN_VALUE\<close>.  \<open>a\<close> is the parameter,
  \<open>t\<close> a local variable.
\<close>

definition example_local :: func_obj where
  "example_local =
    \<lparr> f_code = \<lparr> co_argcount = 1, co_kwonlyargcount = 0, co_nlocals = 2, co_stacksize = 1,
                  co_flags = 67, co_code = [124, 0, 125, 1, 124, 1, 83, 0],
                  co_consts = [PNone], co_names = [], co_varnames = [''a'', ''t''],
                  co_filename = ''example.py'', co_name = ''f'', co_firstlineno = 1,
                  co_lnotab = [0, 1, 4, 1], co_freevars = [], co_cellvars = [] \<rparr>,
      f_globals = 0, f_name = ''f'', f_defaults = [], f_closure = [], f_dict = [] \<rparr>"

text \<open>
  An adapter as the ones of the other modules are: the worker function applies the user
  function to the elements of its chunk in turn, the chunks are the first element and
  the rest, and the reduce function concatenates.  Two workers, memory file system, no
  progress bar.
\<close>

fun apply_loop ::
  "('x, 'y) ctx_func \<Rightarrow> 'x list \<Rightarrow> py_context \<Rightarrow> (py_error + 'y list) \<times> py_context" where
  "apply_loop f [] c = (Inr [], c)"
| "apply_loop f (x # xs) c =
    (case f c x of
       (Inl e, c') \<Rightarrow> (Inl e, c')
     | (Inr y, c') \<Rightarrow>
         (case apply_loop f xs c' of
            (Inl e, c'') \<Rightarrow> (Inl e, c'')
          | (Inr ys, c'') \<Rightarrow> (Inr (y # ys), c'')))"

definition example_parallel_apply ::
  "(unit, nat \<Rightarrow> int list \<Rightarrow> unit \<Rightarrow> py_error + int list list,
    (int, int, unit, unit, int list) worker_function,
    int list list \<Rightarrow> unit \<Rightarrow> py_error + int list, int list \<Rightarrow> unit, int list \<Rightarrow> unit) parallelized" where
  "example_parallel_apply =
    parallelize 2 True False () (\<lambda>n data args. Inr [take 1 data, drop 1 data])
      (\<lambda>chunk index meta f args c. apply_loop f chunk c)
      (\<lambda>results meta. Inr (concat results)) (\<lambda>data. ()) (\<lambda>data. ())"

definition example_world :: "(int, int list) world" where
  "example_world =
    \<lparr>w_tmp_supply = [''a'', ''b'', ''c'', ''d''], w_open_tempfiles = [], w_contents = Map.empty,
      w_queue = [], w_context = \<lparr>pandarallel_counter = 0, pandarallel_queue = []\<rparr>\<rparr>"

section \<open>Properties of \<open>initialize\<close> and of the temporary files\<close>

text \<open>
  Claim C7.  The claim: \<open>is_memory_fs_available\<close> is true if and only if the mount path
  exists and is writable.  The docstring of \<open>initialize\<close> says the same.  The function
  reads \<^verbatim>\<open>os.path.exists\<close> only: its answer does not depend on the write access, it
  is true for a \<^verbatim>\<open>/dev/shm\<close> that exists and cannot be written, and
  \<open>initialize\<close> with \<^verbatim>\<open>use_memory_fs=True\<close> then raises nothing.
\<close>

theorem is_memory_fs_available_ignores_write_access:
  "is_memory_fs_available (env\<lparr>path_writable := wr\<rparr>) = is_memory_fs_available env
   \<and> is_memory_fs_available
        \<lparr>path_exists = (\<lambda>p. p = ''/dev/shm''), path_writable = (\<lambda>p. False)\<rparr>
   \<and> \<not> isl (initialize
        \<lparr>path_exists = (\<lambda>p. p = ''/dev/shm''), path_writable = (\<lambda>p. False)\<rparr>
        classes ctx nb_workers progress_bar verbose (Some True))"
  by (simp add: is_memory_fs_available_def MEMORY_FS_ROOT_def initialize_def Let_def)

text \<open>
  Claim C8.  The claim: input files carry an input prefix and output files a distinct
  output prefix.  \<open>get_workers_args\<close> makes the output files with \<open>create_temp_files\<close>
  too, which always passes \<open>PREFIX_INPUT\<close>; \<open>PREFIX_OUTPUT\<close> is never used.  For one
  worker and the random parts \<open>a\<close> and \<open>b\<close>, the output file is
  \<^verbatim>\<open>/dev/shm/pandarallel_input_b.pickle\<close>.
\<close>

theorem output_files_carry_input_prefix:
  "map_sum id (\<lambda>(workers_args, chunk_lengths, input_files, output_files).
        (input_files, output_files))
      (fst (get_workers_args True 1 progress_bar (\<lambda>chunk. True) [[x]] meta func args
              (w\<lparr>w_tmp_supply := [''a'', ''b'']\<rparr>)))
     = Inr ([''/dev/shm/pandarallel_input_a.pickle''], [''/dev/shm/pandarallel_input_b.pickle''])
   \<and> prefix (MEMORY_FS_ROOT @ ''/'' @ PREFIX_INPUT) ''/dev/shm/pandarallel_input_b.pickle''
   \<and> \<not> prefix (MEMORY_FS_ROOT @ ''/'' @ PREFIX_OUTPUT) ''/dev/shm/pandarallel_input_b.pickle''
   \<and> suffix SUFFIX ''/dev/shm/pandarallel_input_b.pickle''"
  by (simp add: get_workers_args_def NamedTemporaryFile_def dump_and_get_lenght_def
      PREFIX_INPUT_def PREFIX_OUTPUT_def PREFIX_def SUFFIX_def MEMORY_FS_ROOT_def Let_def
      suffix_def)

text \<open>
  Claim C9.  Whatever \<open>progress_bar\<close> is, a successful \<open>initialize\<close> registers
  \<^verbatim>\<open>DataFrameGroupBy.parallel_apply\<close> with the progress bar off, and every other
  operation with \<open>progress_bar\<close> as given.  With the progress bar off, \<open>wrap\<close> hands
  the user function on as it is: a call leaves the context, and so the queue, as it
  was (no \<open>MProgression\<close> message).
\<close>

theorem groupby_apply_registered_without_progress_bar:
  assumes "initialize env classes ctx nb_workers progress_bar verbose use_memory_fs
             = Inr (printed, classes')"
  shows "\<exists>p. classes' op = Some p
           \<and> p_progress_bar p = (op \<noteq> DataFrameGroupBy_parallel_apply \<and> progress_bar)
           \<and> (op = DataFrameGroupBy_parallel_apply \<longrightarrow>
                snd (wrap c (p_progress_bar p) index queue period func) k x = (func x, k))"
proof -
  from assms obtain p where
    p: "classes' op = Some p"
       "p_progress_bar p = (op \<noteq> DataFrameGroupBy_parallel_apply \<and> progress_bar)"
    by (cases op) (auto simp: initialize_def Let_def parallelize_def split: if_splits)
  have "op = DataFrameGroupBy_parallel_apply \<longrightarrow>
          snd (wrap c (p_progress_bar p) index queue period func) k x = (func x, k)"
    using p(2) by (simp add: wrap_def)
  with p show ?thesis by blast
qed

theorem groupby_apply_registered_without_progress_bar_witness:
  "\<exists>printed classes'.
      initialize \<lparr>path_exists = (\<lambda>p. True), path_writable = (\<lambda>p. True)\<rparr>
        Map.empty () 4 True 1 None = Inr (printed, classes')
      \<and> (\<exists>p. classes' DataFrameGroupBy_parallel_apply = Some p \<and> \<not> p_progress_bar p)
      \<and> (\<exists>p. classes' Series_parallel_apply = Some p \<and> p_progress_bar p)"
proof -
  obtain printed classes' where
    init: "initialize \<lparr>path_exists = (\<lambda>p. True), path_writable = (\<lambda>p. True)\<rparr>
             Map.empty () 4 True 1 None = Inr (printed, classes')"
    by (simp add: initialize_def Let_def is_memory_fs_available_def)
  let ?c = "\<lparr>pandarallel_counter = 0, pandarallel_queue = []\<rparr>"
  let ?f = "\<lambda>x::nat. Inr x :: py_error + nat"
  have a: "\<exists>p. classes' DataFrameGroupBy_parallel_apply = Some p \<and> \<not> p_progress_bar p"
    using groupby_apply_registered_without_progress_bar
            [OF init, where op = DataFrameGroupBy_parallel_apply and c = ?c and index = 0
               and queue = "[]" and period = 0 and func = ?f and k = ?c and x = 0]
    by auto
  have b: "\<exists>p. classes' Series_parallel_apply = Some p \<and> p_progress_bar p"
    using groupby_apply_registered_without_progress_bar
            [OF init, where op = Series_parallel_apply and c = ?c and index = 0
               and queue = "[]" and period = 0 and func = ?f and k = ?c and x = 0]
    by auto
  from init a b show ?thesis by blast
qed

text \<open>
  Claim C3.  The claim: the function with the progress code injected returns what the
  user function returns, for every chunk length.  For a chunk of 50 elements
  \<open>get_workers_args\<close> passes the period \<open>50 div 100 = 0\<close> to \<open>wrap\<close>, and the code
  added computes \<^verbatim>\<open>iteration % 0\<close>: every call of the wrapped function raises
  \<^verbatim>\<open>ZeroDivisionError\<close> before the body of the user function runs.
\<close>

theorem progress_func_raises_for_short_chunk:
  "fst (get_workers_args False nb_workers True picklable [replicate 50 x] meta func args w)
     = Inr ([DirectArgs (replicate 50 x) 0 meta
               (wrap (w_context w) True 0 (w_queue w) (50 div 100) func) args],
            [50], [], [])
   \<and> snd (wrap (w_context w) True 0 (w_queue w) (50 div 100) func) c y
     = (Inl ZeroDivisionError, c\<lparr>pandarallel_counter := pandarallel_counter c + 1\<rparr>)"
  by (simp add: get_workers_args_def wrap_def Let_def inliner_trick_def to_add_def)

text \<open>
  Claim C4.  The claim: every temporary file is closed before the call returns, also
  when pickling a chunk into its input file fails.  \<open>get_workers_args\<close> runs before the
  \<^verbatim>\<open>try\<close>, so the \<^verbatim>\<open>finally\<close> that closes the files does not cover it: with one
  worker and a chunk that does not pickle, the call raises and leaves both temporary
  files open.
\<close>

theorem temp_files_left_open_when_dump_fails:
  "map_option (\<lambda>(res, w). (res, w_open_tempfiles w))
     (closure
        (parallelize 1 True False () (\<lambda>n d a. Inr [d]) (\<lambda>chunk i m f a c. (Inr chunk, c))
           (\<lambda>rs m. Inr (concat rs)) (\<lambda>d. ()) (\<lambda>d. ()))
        (\<lambda>chunk. False) [0] [1::int] (\<lambda>x. Inr x) ()
        \<lparr>w_tmp_supply = [''a'', ''b''], w_open_tempfiles = [], w_contents = Map.empty,
          w_queue = [], w_context = \<lparr>pandarallel_counter = 0, pandarallel_queue = []\<rparr>\<rparr>)
   = Some (Inl PicklingError,
           [''/dev/shm/pandarallel_input_a.pickle'', ''/dev/shm/pandarallel_input_b.pickle''])"
  by (simp add: closure_def parallelize_def get_workers_args_def NamedTemporaryFile_def
      dump_and_get_lenght_def PREFIX_INPUT_def PREFIX_def SUFFIX_def MEMORY_FS_ROOT_def Let_def)

section \<open>Properties of the progress aggregator\<close>

text \<open>What a turn of the loop does to \<^verbatim>\<open>finished_workers\<close>.\<close>

lemma set_progress_finished:
  "set_progress i v st = Inr st' \<Longrightarrow> finished_workers st' = finished_workers st"
  by (auto simp: set_progress_def split: option.splits if_splits)

lemma bars_update_finished:
  "bars_update st = Inr st' \<Longrightarrow> finished_workers st' = finished_workers st"
  by (auto simp: bars_update_def split: option.splits)

lemma handle_message_finished:
  assumes "handle_message nbw sh cl ifs m (st, w) = Inr (st', w')"
  shows "finished_workers st' =
           (case m of MValue i \<Rightarrow> (finished_workers st)[i := VALUE]
                    | MError i \<Rightarrow> (finished_workers st)[i := ERROR]
                    | _ \<Rightarrow> finished_workers st)"
  using assms
  by (cases m)
     (auto simp: handle_message_def Let_def
           dest!: set_progress_finished bars_update_finished
           split: if_splits sum.splits)

lemma aggregate_consumed:
  "aggregate nbw sh cl ifs msgs (st, w) = Some (Inr st', w', rest) \<Longrightarrow>
     \<exists>consumed. msgs = consumed @ rest
       \<and> py_all (finished_workers st')
       \<and> length (finished_workers st') = length (finished_workers st)
       \<and> (\<forall>i < length (finished_workers st). finished_workers st ! i = 0 \<longrightarrow>
             MValue i \<in> set consumed \<or> MError i \<in> set consumed)"
proof (induction msgs arbitrary: st w)
  case Nil
  then show ?case
    by (auto simp: py_all_def list_all_length split: if_splits)
next
  case (Cons m ms)
  show ?case
  proof (cases "py_all (finished_workers st)")
    case True
    with Cons.prems have "st' = st" "rest = m # ms" by auto
    with True show ?thesis by (auto simp: py_all_def list_all_length)
  next
    case False
    with Cons.prems obtain st1 w1 where
      h: "handle_message nbw sh cl ifs m (st, w) = Inr (st1, w1)" and
      a: "aggregate nbw sh cl ifs ms (st1, w1) = Some (Inr st', w', rest)"
      by (auto split: sum.splits)
    from Cons.IH [OF a] obtain consumed where
      c: "ms = consumed @ rest" "py_all (finished_workers st')"
         "length (finished_workers st') = length (finished_workers st1)"
         "\<forall>i < length (finished_workers st1). finished_workers st1 ! i = 0 \<longrightarrow>
             MValue i \<in> set consumed \<or> MError i \<in> set consumed"
      by blast
    note f = handle_message_finished [OF h]
    have len: "length (finished_workers st1) = length (finished_workers st)"
      using f by (cases m) auto
    have "\<forall>i < length (finished_workers st). finished_workers st ! i = 0 \<longrightarrow>
             MValue i \<in> set (m # consumed) \<or> MError i \<in> set (m # consumed)"
    proof (intro allI impI)
      fix i assume i: "i < length (finished_workers st)" "finished_workers st ! i = 0"
      show "MValue i \<in> set (m # consumed) \<or> MError i \<in> set (m # consumed)"
      proof (cases "m = MValue i \<or> m = MError i")
        case True then show ?thesis by auto
      next
        case False
        then have "finished_workers st1 ! i = finished_workers st ! i"
          using f by (cases m) (auto simp: nth_list_update)
        with i c(4) len show ?thesis by auto
      qed
    qed
    with c len show ?thesis
      by (intro exI [of _ "m # consumed"]) simp
  qed
qed

text \<open>
  Claim C6.  When the loop of \<open>get_workers_result\<close> returns, all entries of
  \<^verbatim>\<open>finished_workers\<close> are set, and for every worker the loop has read a
  \<open>MValue\<close> or a \<open>MError\<close> message of that worker among the messages it consumed.  A
  turn for any other message leaves \<^verbatim>\<open>finished_workers\<close> as it was.  With
  a worker still unfinished and no message on the queue the loop does not return:
  there is no timeout.
\<close>

theorem aggregate_returns_only_when_all_workers_finished:
  assumes "aggregate nb_workers show_progress_bar chunk_lengths input_files msgs
             (init_agg_state nb_workers show_progress_bar, w :: ('x, 'r) world)
             = Some (Inr st, w', rest)"
  shows "(\<exists>consumed. msgs = consumed @ rest
            \<and> py_all (finished_workers st)
            \<and> (\<forall>i < nb_workers. MValue i \<in> set consumed \<or> MError i \<in> set consumed))
         \<and> (\<forall>m st0 w0 st1 w1.
               handle_message nb_workers show_progress_bar chunk_lengths input_files m
                 (st0, w0 :: ('x, 'r) world) = Inr (st1, w1)
               \<longrightarrow> (\<forall>i. m \<noteq> MValue i \<and> m \<noteq> MError i)
               \<longrightarrow> finished_workers st1 = finished_workers st0)
         \<and> (\<forall>st0 w0. \<not> py_all (finished_workers st0)
               \<longrightarrow> aggregate nb_workers show_progress_bar chunk_lengths input_files []
                     (st0, w0 :: ('x, 'r) world) = None)"
proof -
  have a: "\<exists>consumed. msgs = consumed @ rest
            \<and> py_all (finished_workers st)
            \<and> (\<forall>i < nb_workers. MValue i \<in> set consumed \<or> MError i \<in> set consumed)"
    using aggregate_consumed [OF assms] by (auto simp: init_agg_state_def)
  have b: "finished_workers st1 = finished_workers st0"
    if "handle_message nb_workers show_progress_bar chunk_lengths input_files m (st0, w0)
            = Inr (st1, w1)"
     and "\<forall>i. m \<noteq> MValue i \<and> m \<noteq> MError i"
    for m st0 st1 and w0 w1 :: "('x, 'r) world"
    using that by (cases m) (auto dest!: handle_message_finished)
  have c: "aggregate nb_workers show_progress_bar chunk_lengths input_files [] (st0, w0) = None"
    if "\<not> py_all (finished_workers st0)" for st0 and w0 :: "('x, 'r) world"
    using that by simp
  from a b c show ?thesis by blast
qed

theorem aggregate_returns_only_when_all_workers_finished_witness:
  "\<exists>st w'.
     aggregate 2 False [1, 1] [''a'', ''b''] [MInputFileRead 1, MValue 1, MError 0, MValue 0]
       (init_agg_state 2 False,
        \<lparr>w_tmp_supply = [], w_open_tempfiles = [''a'', ''b''], w_contents = Map.empty,
          w_queue = [], w_context = \<lparr>pandarallel_counter = 0, pandarallel_queue = []\<rparr>\<rparr>
          :: (nat, nat) world)
       = Some (Inr st, w', [MValue 0])
     \<and> finished_workers st = [ERROR, VALUE]
     \<and> (\<exists>consumed. [MInputFileRead 1, MValue 1, MError 0, MValue 0] = consumed @ [MValue 0]
           \<and> MValue 1 \<in> set consumed \<and> MError 0 \<in> set consumed)"
proof -
  let ?w = "\<lparr>w_tmp_supply = [], w_open_tempfiles = [''a'', ''b''], w_contents = Map.empty,
          w_queue = [], w_context = \<lparr>pandarallel_counter = 0, pandarallel_queue = []\<rparr>\<rparr>
          :: (nat, nat) world"
  obtain st w' where
    run: "aggregate 2 False [1, 1] [''a'', ''b''] [MInputFileRead 1, MValue 1, MError 0, MValue 0]
            (init_agg_state 2 False, ?w) = Some (Inr st, w', [MValue 0])"
    and fin: "finished_workers st = [ERROR, VALUE]"
    by (simp add: init_agg_state_def py_all_def handle_message_def close_tempfile_def
        VALUE_def ERROR_def Let_def numeral_2_eq_2)
  from aggregate_returns_only_when_all_workers_finished [OF run]
  obtain consumed where
    c: "[MInputFileRead 1, MValue 1, MError 0, MValue 0] = consumed @ [MValue 0]"
       "\<forall>i<2. MValue i \<in> set consumed \<or> MError i \<in> set consumed"
    by blast
  from c(1) have "consumed = [MInputFileRead 1, MValue 1, MError 0]"
    by (simp add: append_eq_Cons_conv) 
  then have "MValue 1 \<in> set consumed \<and> MError 0 \<in> set consumed" by simp
  with run fin c(1) show ?thesis by blast
qed

section \<open>Properties of the instrumentor\<close>

text \<open>
  Claim C2.  The claim: a bound name that is not a parameter of \<open>f\<close> is rejected with
  the "not an argument" error, also when it is a local variable of \<open>f\<close>.  The check
  of \<open>inlined_partial\<close> looks the name up in \<^verbatim>\<open>co_varnames\<close>, which holds
  the local variables behind the parameters.  For \<^verbatim>\<open>def f(a): t = a; return t\<close>
  and the binding \<open>t = 7\<close> no error is raised: a function is returned, with its
  argument count lowered to 0 and the load of \<open>t\<close> replaced by the constant.
\<close>

theorem inlined_partial_accepts_local_variable:
  "''t'' \<notin> set (take (co_argcount (f_code example_local)) (co_varnames (f_code example_local)))
   \<and> fst (inlined_partial id 0 ''g'' [(''t'', PInt 7)] [example_local]) = Inr 1
   \<and> co_argcount (f_code (snd (inlined_partial id 0 ''g'' [(''t'', PInt 7)] [example_local]) ! 1))
       = 0
   \<and> co_code (f_code (snd (inlined_partial id 0 ''g'' [(''t'', PInt 7)] [example_local]) ! 1))
       = [124, 0, 125, 1, 100, 1, 83, 0]"
  by code_simp

text \<open>
  Claim C10.  \<open>inlined_partial\<close> leaves every function object of the heap as it was,
  the object of \<open>func\<close> among them, whether it returns or raises: the heap it leaves
  starts with the old heap.  When it returns, the function returned is a new object,
  behind the old ones, and the only one added.
\<close>

theorem inlined_partial_leaves_func_unchanged:
  "take (length h) (snd (inlined_partial set_order func name arg_name2value h)) = h
   \<and> (\<forall>g. fst (inlined_partial set_order func name arg_name2value h) = Inr g \<longrightarrow>
          g = length h \<and> func < length h
          \<and> length (snd (inlined_partial set_order func name arg_name2value h)) = Suc (length h))"
  by (auto simp: inlined_partial_def Let_def copy_func_def
      split: option.splits sum.splits prod.splits if_splits)

theorem inlined_partial_leaves_func_unchanged_witness:
  "fst (inlined_partial id 0 ''g'' [(''a'', PInt 7)] [example_local]) = Inr 1
   \<and> snd (inlined_partial id 0 ''g'' [(''a'', PInt 7)] [example_local]) ! 0 = example_local
   \<and> length (snd (inlined_partial id 0 ''g'' [(''a'', PInt 7)] [example_local])) = 2
   \<and> snd (inlined_partial id 0 ''g'' [(''z'', PInt 7)] [example_local]) = [example_local]"
proof -
  have ok: "fst (inlined_partial id 0 ''g'' [(''a'', PInt 7)] [example_local]) = Inr 1"
    by code_simp
  have ko: "length (snd (inlined_partial id 0 ''g'' [(''z'', PInt 7)] [example_local])) = 1"
    by code_simp
  note a = inlined_partial_leaves_func_unchanged
             [of "[example_local]" id 0 "''g''" "[(''a'', PInt 7)]"]
  note z = inlined_partial_leaves_func_unchanged
             [of "[example_local]" id 0 "''g''" "[(''z'', PInt 7)]"]
  from a ok have len: "length (snd (inlined_partial id 0 ''g'' [(''a'', PInt 7)] [example_local])) = 2"
    by simp
  from a have "take 1 (snd (inlined_partial id 0 ''g'' [(''a'', PInt 7)] [example_local]))
                 = [example_local]"
    by simp
  with len have first: "snd (inlined_partial id 0 ''g'' [(''a'', PInt 7)] [example_local]) ! 0
                 = example_local"
    by (metis One_nat_def lessI nth_Cons_0 nth_take)
  from z ko have "snd (inlined_partial id 0 ''g'' [(''z'', PInt 7)] [example_local])
                 = [example_local]"
    by simp
  with ok first len show ?thesis by simp
qed

section \<open>Properties of the coordinator\<close>

text \<open>What \<open>get_workers_args\<close> leaves: the files, their contents and the work items.\<close>

lemma tmp_name_inj: "tmp_name a = tmp_name b \<Longrightarrow> a = b"
  by (simp add: tmp_name_def)

lemma create_temp_files_result:
  "create_temp_files n w = (Inr files, w') \<Longrightarrow>
     files = map tmp_name (take n (w_tmp_supply w))
     \<and> length files = n
     \<and> w_tmp_supply w' = drop n (w_tmp_supply w)
     \<and> w_queue w' = w_queue w
     \<and> w_context w' = w_context w
     \<and> (\<forall>name. name \<notin> set files \<longrightarrow> w_contents w' name = w_contents w name)"
proof (induction n arbitrary: w files w')
  case 0
  then show ?case by simp
next
  case (Suc n)
  from Suc.prems obtain rnd rest where sup: "w_tmp_supply w = rnd # rest"
    by (cases "w_tmp_supply w") (auto simp: NamedTemporaryFile_def)
  define w1 where "w1 = w\<lparr>w_tmp_supply := rest,
                w_open_tempfiles := w_open_tempfiles w @ [tmp_name rnd],
                w_contents := (w_contents w)(tmp_name rnd \<mapsto> EmptyFile)\<rparr>"
  have nt: "NamedTemporaryFile PREFIX_INPUT SUFFIX MEMORY_FS_ROOT w = (Inr (tmp_name rnd), w1)"
    by (simp add: NamedTemporaryFile_def sup tmp_name_def w1_def Let_def)
  with Suc.prems obtain files1 where
    r: "create_temp_files n w1 = (Inr files1, w')" and f: "files = tmp_name rnd # files1"
    by (auto split: prod.splits sum.splits)
  from Suc.IH [OF r] show ?case
    using f sup by (auto simp: w1_def)
qed

lemma dump_chunks_result:
  "dump_chunks picklable ps w = (Inr lens, w') \<Longrightarrow> distinct (map snd ps) \<Longrightarrow>
     lens = map (\<lambda>p. length (fst p)) ps
     \<and> w_queue w' = w_queue w
     \<and> w_context w' = w_context w
     \<and> w_tmp_supply w' = w_tmp_supply w
     \<and> w_open_tempfiles w' = w_open_tempfiles w
     \<and> (\<forall>p \<in> set ps. w_contents w' (snd p) = Some (PickledChunk (fst p)))
     \<and> (\<forall>name. name \<notin> snd ` set ps \<longrightarrow> w_contents w' name = w_contents w name)"
proof (induction ps arbitrary: w lens w')
  case Nil
  then show ?case by simp
next
  case (Cons p ps)
  obtain chunk fname where p: "p = (chunk, fname)" by (cases p)
  define w1 where "w1 = w\<lparr>w_contents := (w_contents w)(fname \<mapsto> PickledChunk chunk)\<rparr>"
  from Cons.prems(1) p obtain ns where
    r: "dump_chunks picklable ps w1 = (Inr ns, w')" and l: "lens = length chunk # ns"
    by (auto simp: dump_and_get_lenght_def w1_def split: if_splits prod.splits sum.splits)
  from Cons.prems(2) p have d: "distinct (map snd ps)" and nf: "fname \<notin> snd ` set ps" by auto
  from Cons.IH [OF r d] show ?case
    using p l nf by (auto simp: w1_def)
qed

lemma fst_wrap: "fst (wrap ctx pb i q per f) = \<lparr>pandarallel_counter = 0, pandarallel_queue = q\<rparr>"
  by (cases ctx) (simp add: wrap_def)

lemma snd_wrap: "snd (wrap ctx pb i q per f) = wrapped pb i per f"
  by (simp add: wrap_def wrapped_def)

lemma wrap_eq: "wrap ctx pb i q per f = (\<lparr>pandarallel_counter = 0, pandarallel_queue = q\<rparr>, wrapped pb i per f)"
  by (simp add: prod_eq_iff fst_wrap snd_wrap)

lemma memory_workers_args_result:
  "fst (memory_workers_args pb meta q func args items ctx) =
     map (\<lambda>(i, inp, out, len). MemArgs inp out i meta
            (\<lparr>pandarallel_counter = 0, pandarallel_queue = q\<rparr>, wrapped pb i (len div 100) func) args) items"
proof (induction items arbitrary: ctx)
  case Nil
  show ?case by simp
next
  case (Cons a items)
  then show ?case by (cases a) (simp add: wrap_eq split_beta Let_def)
qed

lemma direct_workers_args_result:
  "fst (direct_workers_args pb meta q func args items ctx) =
     map (\<lambda>(i, chunk). (DirectArgs chunk i meta
            (\<lparr>pandarallel_counter = 0, pandarallel_queue = q\<rparr>, wrapped pb i (length chunk div 100) func) args, length chunk)) items"
proof (induction items arbitrary: ctx)
  case Nil
  show ?case by simp
next
  case (Cons a items)
  then show ?case by (cases a) (simp add: wrap_eq split_beta Let_def)
qed

lemma handle_message_contents:
  "handle_message nbw sh lens ins m (st, w) = Inr (st', w') \<Longrightarrow> name \<notin> set ins \<Longrightarrow>
     w_contents w' name = w_contents w name"
  by (cases m)
     (auto simp: handle_message_def Let_def close_tempfile_def split: if_splits sum.splits)

lemma aggregate_contents:
  "aggregate nbw sh lens ins msgs (st, w) = Some (r, w', rest) \<Longrightarrow> name \<notin> set ins \<Longrightarrow>
     w_contents w' name = w_contents w name"
proof (induction msgs arbitrary: st w)
  case Nil
  then show ?case by (auto split: if_splits)
next
  case (Cons m ms)
  show ?case
  proof (cases "py_all (finished_workers st)")
    case True
    with Cons.prems show ?thesis by auto
  next
    case False
    show ?thesis
    proof (cases "handle_message nbw sh lens ins m (st, w)")
      case (Inl e)
      with False Cons.prems show ?thesis by auto
    next
      case (Inr sw)
      obtain st1 w1 where sw: "sw = (st1, w1)" by (cases sw)
      from Inr False Cons.prems(1) sw
      have "aggregate nbw sh lens ins ms (st1, w1) = Some (r, w', rest)" by simp
      from Cons.IH [OF this Cons.prems(2)] handle_message_contents [OF Inr [unfolded sw] Cons.prems(2)]
      show ?thesis by simp
    qed
  qed
qed

lemma load_outputs_result:
  "load_outputs outs w = Inr rs \<Longrightarrow>
     length rs = length outs
     \<and> (\<forall>j < length outs. w_contents w (outs ! j) = Some (PickledResult (rs ! j)))"
proof (induction outs arbitrary: rs)
  case Nil
  then show ?case by simp
next
  case (Cons out outs)
  from Cons.prems obtain r rs' where
    c: "w_contents w out = Some (PickledResult r)" and
    l: "load_outputs outs w = Inr rs'" and rs: "rs = r # rs'"
    by (auto split: option.splits blob.splits sum.splits)
  from Cons.IH [OF l] c rs show ?case
    by (auto simp: nth_Cons split: nat.splits)
qed

lemma direct_results_result: "direct_results xs = Inr rs \<Longrightarrow> xs = map Some rs"
proof (induction xs arbitrary: rs)
  case Nil
  then show ?case by simp
next
  case (Cons x xs)
  then show ?case by (cases x) (auto split: sum.splits)
qed

lemma slot_values_all_ok:
  "\<forall>s \<in> set slots. \<exists>x. s = Some (Inr x) \<Longrightarrow>
     length (slot_values slots) = length slots
     \<and> (\<forall>j < length slots. slots ! j = Some (Inr (slot_values slots ! j)))"
proof (induction slots)
  case Nil
  then show ?case by simp
next
  case (Cons s slots)
  then obtain x where "s = Some (Inr x)" by auto
  with Cons show ?case by (auto simp: nth_Cons split: nat.splits)
qed

lemma set_slot_first_error_inv:
  "first_error_inv mr \<Longrightarrow> first_error_inv (set_slot i res mr)"
  by (cases res)
     (auto simp: first_error_inv_def set_slot_def dest!: set_update_subset_insert [THEN subsetD]
           split: option.splits)

lemma run_pool_rule:
  assumes step: "\<And>i w res w'. i < length was \<Longrightarrow> I w
               \<Longrightarrow> task (was ! i) w = (res, w')
               \<Longrightarrow> I w' \<and> Q i res w'
                 \<and> (\<forall>j < length was. \<forall>r. j \<noteq> i \<longrightarrow> Q j r w \<longrightarrow> Q j r w')"
    and "I w"
    and "\<forall>j < length was. \<forall>r. mr_slots mr ! j = Some r \<longrightarrow> Q j r w"
    and "length (mr_slots mr) = length was"
    and "first_error_inv mr"
    and "run_pool task was schedule mr w = (mr', w')"
  shows "I w' \<and> (\<forall>j < length was. \<forall>r. mr_slots mr' ! j = Some r \<longrightarrow> Q j r w')
         \<and> length (mr_slots mr') = length was \<and> first_error_inv mr'"
  using assms(2-)
proof (induction schedule arbitrary: mr w)
  case Nil
  then show ?case by simp
next
  case (Cons i schedule)
  show ?case
  proof (cases "i < length was \<and> mr_slots mr ! i = None")
    case False
    with Cons.prems(5) have "run_pool task was schedule mr w = (mr', w')" by auto
    from Cons.IH [OF Cons.prems(1-4) this] show ?thesis .
  next
    case True
    obtain res w1 where t: "task (was ! i) w = (res, w1)" by (cases "task (was ! i) w")
    with True Cons.prems(5)
    have r: "run_pool task was schedule (set_slot i res mr) w1 = (mr', w')" by simp
    from True have a: "i < length was" "mr_slots mr ! i = None" by auto
    from step [OF a(1) Cons.prems(1) t]
    have s: "I w1" "Q i res w1" "\<forall>j < length was. \<forall>r. j \<noteq> i \<longrightarrow> Q j r w \<longrightarrow> Q j r w1"
      by auto
    have q: "\<forall>j < length was. \<forall>r. mr_slots (set_slot i res mr) ! j = Some r \<longrightarrow> Q j r w1"
      using s Cons.prems(2,3) True by (auto simp: set_slot_def nth_list_update)
    have l: "length (mr_slots (set_slot i res mr)) = length was"
      using Cons.prems(3) by (simp add: set_slot_def)
    from Cons.IH [OF s(1) q l set_slot_first_error_inv [OF Cons.prems(4)] r] show ?thesis .
  qed
qed

lemma map_result_get_ok:
  assumes "map_result_get mr = Some (Inr xs)" and "first_error_inv mr"
  shows "length xs = length (mr_slots mr)
         \<and> (\<forall>j < length (mr_slots mr). mr_slots mr ! j = Some (Inr (xs ! j)))"
proof -
  from assms(1) have n: "None \<notin> set (mr_slots mr)" and fe: "mr_first_error mr = None"
    and xs: "xs = slot_values (mr_slots mr)"
    by (auto simp: map_result_get_def split: if_splits option.splits)
  have "\<forall>s \<in> set (mr_slots mr). \<exists>x. s = Some (Inr x)"
  proof
    fix s assume s: "s \<in> set (mr_slots mr)"
    with n obtain v where v: "s = Some v" by (cases s) auto
    with s fe assms(2) show "\<exists>x. s = Some (Inr x)"
      by (cases v) (auto simp: first_error_inv_def)
  qed
  from slot_values_all_ok [OF this] xs show ?thesis by simp
qed

lemma get_workers_args_direct:
  assumes "get_workers_args False n pb picklable chunks meta func args w
             = (Inr (was, lens, ins, outs), w1)"
  shows "length was = length chunks \<and> ins = [] \<and> outs = []
         \<and> (\<forall>i < length chunks. was ! i =
               DirectArgs (chunks ! i) i meta
                 (\<lparr>pandarallel_counter = 0, pandarallel_queue = w_queue w\<rparr>,
                  wrapped pb i (length (chunks ! i) div 100) func) args)"
proof -
  let ?pairs = "fst (direct_workers_args pb meta (w_queue w) func args (enumerate 0 chunks)
                       (w_context w))"
  from assms have was: "was = map fst ?pairs" and io: "ins = []" "outs = []"
    by (auto simp: get_workers_args_def Let_def split_beta split: if_splits)
  have "length was = length chunks"
    by (simp add: was direct_workers_args_result)
  moreover have "was ! i = DirectArgs (chunks ! i) i meta
                 (\<lparr>pandarallel_counter = 0, pandarallel_queue = w_queue w\<rparr>,
                  wrapped pb i (length (chunks ! i) div 100) func) args"
    if "i < length chunks" for i
    using that by (simp add: was direct_workers_args_result nth_enumerate_eq)
  ultimately show ?thesis using io by simp
qed

lemma get_workers_args_memory:
  assumes g: "get_workers_args True n pb picklable chunks meta func args w
                = (Inr (was, lens, ins, outs), w1)"
      and len: "length chunks = n"
      and dist: "distinct (take (2 * n) (w_tmp_supply w))"
  shows "length was = n \<and> length ins = n \<and> length outs = n \<and> distinct (ins @ outs)
         \<and> (\<forall>i < n. was ! i =
               MemArgs (ins ! i) (outs ! i) i meta
                 (\<lparr>pandarallel_counter = 0, pandarallel_queue = w_queue w\<rparr>,
                  wrapped pb i (length (chunks ! i) div 100) func) args)
         \<and> (\<forall>i < n. w_contents w1 (ins ! i) = Some (PickledChunk (chunks ! i)))"
proof -
  from g obtain wa wb wc where
    a: "create_temp_files n w = (Inr ins, wa)" and
    b: "create_temp_files n wa = (Inr outs, wb)" and
    c: "dump_chunks picklable (zip chunks ins) wb = (Inr lens, wc)" and
    was: "was = fst (memory_workers_args pb meta (w_queue wc) func args
                       (enumerate 0 (zip ins (zip outs lens))) (w_context wc))" and
    w1: "w_contents w1 = w_contents wc"
    by (auto simp: get_workers_args_def Let_def split: prod.splits sum.splits)
  note ra = create_temp_files_result [OF a]
  note rb = create_temp_files_result [OF b]
  from ra rb have ins: "ins = map tmp_name (take n (w_tmp_supply w))"
    and outs: "outs = map tmp_name (take n (drop n (w_tmp_supply w)))"
    and li: "length ins = n" and lo: "length outs = n"
    and q: "w_queue wb = w_queue w"
    by auto
  have "ins @ outs = map tmp_name (take (n + n) (w_tmp_supply w))"
    by (simp add: ins outs take_add)
  with dist have d: "distinct (ins @ outs)"
    by (simp add: distinct_map inj_on_def tmp_name_inj mult_2)
  then have di: "distinct (map snd (zip chunks ins))"
    using len li by simp
  note rc = dump_chunks_result [OF c di]
  from rc have ll: "lens = map length chunks"
    using len li by (auto intro: nth_equalityI)
  from rc q have qc: "w_queue wc = w_queue w" by simp
  have lw: "length was = n"
    using li lo ll len by (simp add: was memory_workers_args_result)
  have wi: "was ! i = MemArgs (ins ! i) (outs ! i) i meta
                 (\<lparr>pandarallel_counter = 0, pandarallel_queue = w_queue w\<rparr>,
                  wrapped pb i (length (chunks ! i) div 100) func) args"
    if "i < n" for i
    using that li lo ll len qc
    by (simp add: was memory_workers_args_result nth_enumerate_eq)
  have ci: "w_contents w1 (ins ! i) = Some (PickledChunk (chunks ! i))" if "i < n" for i
  proof -
    from that len li have "(chunks ! i, ins ! i) \<in> set (zip chunks ins)"
      by (auto simp: set_zip)
    with rc w1 show ?thesis by auto
  qed
  from lw li lo d wi ci show ?thesis by blast
qed

lemma prepare_worker_direct:
  "prepare_worker False fn (DirectArgs data i meta (c, f) args) w = (Inr x, w') \<Longrightarrow>
     \<exists>r. x = Some r \<and> fst (fn data i meta f args (c\<lparr>pandarallel_queue := w_queue w\<rparr>)) = Inr r"
  by (auto simp: prepare_worker_def run_function_def Let_def split_beta
           split: prod.splits sum.splits)

lemma prepare_worker_memory_contents:
  "prepare_worker True fn (MemArgs inp out i meta cf args) w = (res, w') \<Longrightarrow> name \<noteq> out \<Longrightarrow>
     w_contents w' name = w_contents w name"
  by (auto simp: prepare_worker_def run_function_def queue_put_def Let_def split_beta
           split: prod.splits sum.splits option.splits blob.splits)

lemma prepare_worker_memory_result:
  "prepare_worker True fn (MemArgs inp out i meta (c, f) args) w = (Inr x, w') \<Longrightarrow>
   w_contents w inp = Some (PickledChunk data) \<Longrightarrow>
     \<exists>r q. fst (fn data i meta f args (c\<lparr>pandarallel_queue := q\<rparr>)) = Inr r
          \<and> w_contents w' out = Some (PickledResult r)"
  by (auto simp: prepare_worker_def run_function_def queue_put_def Let_def split_beta
           split: prod.splits sum.splits option.splits blob.splits)

lemma first_error_inv_map_async: "first_error_inv (map_async n)"
  by (simp add: first_error_inv_def map_async_def)

lemma closure_success:
  assumes run: "closure p picklable schedule data func args w0 = Some (Inr out, w')"
      and chunks: "p_get_chunks p (p_nb_workers p) data args = Inr chunks"
  obtains was lens ins outs w1 mr w2 st wa rest xs results where
    "get_workers_args (p_use_memory_fs p) (p_nb_workers p) (p_progress_bar p) picklable chunks
       (p_get_worker_meta_args p data) func args (w0\<lparr>w_queue := []\<rparr>)
       = (Inr (was, lens, ins, outs), w1)"
    "run_pool (prepare_worker (p_use_memory_fs p) (p_worker p)) was schedule
       (map_async (length was)) w1 = (mr, w2)"
    "aggregate (p_nb_workers p) (p_progress_bar p) lens ins (w_queue w2)
       (init_agg_state (p_nb_workers p) (p_progress_bar p), w2) = Some (Inr st, wa, rest)"
    "map_result_get mr = Some (Inr xs)"
    "(if p_use_memory_fs p then load_outputs outs wa else direct_results xs) = Inr results"
    "p_reduce p results (p_get_reduce_meta_args p data) = Inr out"
proof -
  let ?g = "get_workers_args (p_use_memory_fs p) (p_nb_workers p) (p_progress_bar p) picklable
              chunks (p_get_worker_meta_args p data) func args (w0\<lparr>w_queue := []\<rparr>)"
  obtain r1 w1 where g1: "?g = (r1, w1)" by (cases ?g)
  from run chunks g1 obtain was lens ins outs where r1: "r1 = Inr (was, lens, ins, outs)"
    by (cases r1) (auto simp: closure_def Let_def)
  let ?rp = "run_pool (prepare_worker (p_use_memory_fs p) (p_worker p)) was schedule
               (map_async (length was)) w1"
  obtain mr w2 where rp: "?rp = (mr, w2)" by (cases ?rp)
  let ?gr = "get_workers_result (p_use_memory_fs p) (p_nb_workers p) (p_progress_bar p) lens
               ins outs mr w2"
  from run chunks g1 r1 rp obtain results w3 where
    gr: "?gr = Some (Inr results, w3)" and
    red: "p_reduce p results (p_get_reduce_meta_args p data) = Inr out"
    by (auto simp: closure_def Let_def split: if_splits option.splits sum.splits prod.splits)
  let ?ag = "aggregate (p_nb_workers p) (p_progress_bar p) lens ins (w_queue w2)
               (init_agg_state (p_nb_workers p) (p_progress_bar p), w2)"
  from gr obtain st wa rest xs where
    ag: "?ag = Some (Inr st, wa, rest)" and
    mg: "map_result_get mr = Some (Inr xs)" and
    res: "(if p_use_memory_fs p then load_outputs outs wa else direct_results xs) = Inr results"
    by (auto simp: get_workers_result_def split: option.splits sum.splits prod.splits)
  from that [OF g1 [unfolded r1] rp ag mg res red] show thesis .
qed

text \<open>
  Claim C5.  When the call returns normally, for \<open>N\<close> chunks and \<open>N\<close> workers, the
  list given to the reduce function has \<open>N\<close> entries and its entry \<open>i\<close> is what the
  worker function returned for chunk \<open>i\<close> with index \<open>i\<close>, whatever the order in
  which the pool completed the work items (\<open>schedule\<close>): with the memory file system
  the entry is read from the output file of work item \<open>i\<close>, without it it is slot \<open>i\<close>
  of the result handle.  With the memory file system the names the operating system
  gives to the \<open>2 * N\<close> temporary files are distinct.
\<close>

theorem results_in_partition_order:
  assumes run: "closure p picklable schedule data func args (w0 :: ('x, 'r) world)
                  = Some (Inr out, w')"
      and chunks: "p_get_chunks p (p_nb_workers p) data args = Inr chunks"
      and len: "length chunks = p_nb_workers p"
      and names: "p_use_memory_fs p \<longrightarrow> distinct (take (2 * p_nb_workers p) (w_tmp_supply w0))"
  shows "\<exists>results. p_reduce p results (p_get_reduce_meta_args p data) = Inr out
           \<and> length results = length chunks
           \<and> (\<forall>i < length chunks. \<exists>q.
                 partition_result p data func args chunks i q = Inr (results ! i))"
proof -
  let ?n = "p_nb_workers p"
  let ?pb = "p_progress_bar p"
  let ?meta = "p_get_worker_meta_args p data"
  from closure_success [OF run chunks]
  obtain was lens ins outs w1 mr w2 st wa rest xs results where
    g: "get_workers_args (p_use_memory_fs p) ?n ?pb picklable chunks ?meta func args
          (w0\<lparr>w_queue := []\<rparr>) = (Inr (was, lens, ins, outs), w1)" and
    rp: "run_pool (prepare_worker (p_use_memory_fs p) (p_worker p)) was schedule
          (map_async (length was)) w1 = (mr, w2)" and
    ag: "aggregate ?n ?pb lens ins (w_queue w2) (init_agg_state ?n ?pb, w2)
          = Some (Inr st, wa, rest)" and
    mg: "map_result_get mr = Some (Inr xs)" and
    res: "(if p_use_memory_fs p then load_outputs outs wa else direct_results xs) = Inr results"
    and red: "p_reduce p results (p_get_reduce_meta_args p data) = Inr out"
    by blast
  have pr: "partition_result p data func args chunks i q =
              fst (p_worker p (chunks ! i) i ?meta (wrapped ?pb i (length (chunks ! i) div 100) func)
                     args \<lparr>pandarallel_counter = 0, pandarallel_queue = q\<rparr>)" for i q
    by (simp add: partition_result_def snd_wrap)
  have slots0: "\<forall>j < length was. \<forall>r. mr_slots (map_async (length was)) ! j = Some r \<longrightarrow> Q j r w1"
    for Q :: "nat \<Rightarrow> py_error + 'r option \<Rightarrow> ('x, 'r) world \<Rightarrow> bool"
    by (simp add: map_async_def)
  have l0: "length (mr_slots (map_async (length was) :: 'r map_result)) = length was"
    by (simp add: map_async_def)
  show ?thesis
  proof (cases "p_use_memory_fs p")
    case False
    from g False have ga: "length was = length chunks"
      "\<forall>i < length chunks. was ! i =
          DirectArgs (chunks ! i) i ?meta
            (\<lparr>pandarallel_counter = 0, pandarallel_queue = []\<rparr>,
             wrapped ?pb i (length (chunks ! i) div 100) func) args"
      using get_workers_args_direct [of ?n ?pb picklable chunks ?meta func args
               "w0\<lparr>w_queue := []\<rparr>" was lens ins outs w1]
      by auto
    define Q where "Q = (\<lambda>i (r :: py_error + 'r option) (w :: ('x, 'r) world).
        \<forall>x. r = Inr x \<longrightarrow>
          (\<exists>v q. x = Some v \<and> partition_result p data func args chunks i q = Inr v))"
    have step: "True \<and> Q i r w'' \<and> (\<forall>j < length was. \<forall>r'. j \<noteq> i \<longrightarrow> Q j r' w \<longrightarrow> Q j r' w'')"
      if "i < length was" "True"
         "prepare_worker (p_use_memory_fs p) (p_worker p) (was ! i) w = (r, w'')"
      for i w r w''
    proof -
      from that(1) ga have wi: "was ! i =
          DirectArgs (chunks ! i) i ?meta
            (\<lparr>pandarallel_counter = 0, pandarallel_queue = []\<rparr>,
             wrapped ?pb i (length (chunks ! i) div 100) func) args"
        by simp
      have "Q i r w''"
        unfolding Q_def
      proof (intro allI impI)
        fix x assume "r = Inr x"
        with that(3) False wi
        have "prepare_worker False (p_worker p)
                (DirectArgs (chunks ! i) i ?meta
                   (\<lparr>pandarallel_counter = 0, pandarallel_queue = []\<rparr>,
                    wrapped ?pb i (length (chunks ! i) div 100) func) args) w = (Inr x, w'')"
          by simp
        from prepare_worker_direct [OF this]
        show "\<exists>v q. x = Some v \<and> partition_result p data func args chunks i q = Inr v"
          by (auto simp: pr)
      qed
      then show ?thesis by (simp add: Q_def)
    qed
    have "True \<and> (\<forall>j < length was. \<forall>r. mr_slots mr ! j = Some r \<longrightarrow> Q j r w2)
            \<and> length (mr_slots mr) = length was \<and> first_error_inv mr"
    proof (rule run_pool_rule [where I = "\<lambda>w. True" and Q = Q
             and task = "prepare_worker (p_use_memory_fs p) (p_worker p)" and was = was
             and w = w1 and mr = "map_async (length was)" and schedule = schedule
             and mr' = mr and w' = w2])
      show "True \<and> Q i res w' \<and> (\<forall>j < length was. \<forall>r. j \<noteq> i \<longrightarrow> Q j r w \<longrightarrow> Q j r w')"
        if "i < length was" "True"
           "prepare_worker (p_use_memory_fs p) (p_worker p) (was ! i) w = (res, w')"
        for i w res w'
        using that by (rule step)
    qed (simp_all add: slots0 l0 first_error_inv_map_async rp)
    then have inv: "\<forall>j < length was. \<forall>r. mr_slots mr ! j = Some r \<longrightarrow> Q j r w2"
      and lm: "length (mr_slots mr) = length was" and fe: "first_error_inv mr"
      by auto
    from map_result_get_ok [OF mg fe] lm
    have xs: "length xs = length was" "\<forall>j < length was. mr_slots mr ! j = Some (Inr (xs ! j))"
      by auto
    from res False have dr: "xs = map Some results"
      by (auto dest: direct_results_result)
    with xs ga have lr: "length results = length chunks" by simp
    have "\<exists>q. partition_result p data func args chunks i q = Inr (results ! i)"
      if "i < length chunks" for i
    proof -
      from that ga xs inv have "Q i (Inr (xs ! i)) w2" by auto
      with dr that lr show ?thesis by (auto simp: Q_def)
    qed
    with red lr show ?thesis by blast
  next
    case True
    from names True have d0: "distinct (take (2 * ?n) (w_tmp_supply (w0\<lparr>w_queue := []\<rparr>)))"
      by simp
    from g True get_workers_args_memory [OF _ len d0, of ?pb picklable ?meta func args
            was lens ins outs w1]
    have ga: "length was = ?n" "length ins = ?n" "length outs = ?n" "distinct (ins @ outs)"
      "\<forall>i < ?n. was ! i =
          MemArgs (ins ! i) (outs ! i) i ?meta
            (\<lparr>pandarallel_counter = 0, pandarallel_queue = []\<rparr>,
             wrapped ?pb i (length (chunks ! i) div 100) func) args"
      "\<forall>i < ?n. w_contents w1 (ins ! i) = Some (PickledChunk (chunks ! i))"
      by auto
    define I where "I = (\<lambda>w :: ('x, 'r) world.
        \<forall>i < ?n. w_contents w (ins ! i) = Some (PickledChunk (chunks ! i)))"
    define Q where "Q = (\<lambda>i (r :: py_error + 'r option) (w :: ('x, 'r) world).
        \<forall>x. r = Inr x \<longrightarrow>
          (\<exists>v q. partition_result p data func args chunks i q = Inr v
                \<and> w_contents w (outs ! i) = Some (PickledResult v)))"
    have neq: "ins ! i \<noteq> outs ! j" if "i < ?n" "j < ?n" for i j
    proof -
      from that ga(2,3) have "ins ! i \<in> set ins" "outs ! j \<in> set outs" by auto
      with ga(4) show ?thesis by auto
    qed
    have neq2: "outs ! i \<noteq> outs ! j" if "i < ?n" "j < ?n" "i \<noteq> j" for i j
      using ga(3,4) that by (auto simp: nth_eq_iff_index_eq)
    have step: "I w'' \<and> Q i r w'' \<and> (\<forall>j < length was. \<forall>r'. j \<noteq> i \<longrightarrow> Q j r' w \<longrightarrow> Q j r' w'')"
      if "i < length was" "I w"
         "prepare_worker (p_use_memory_fs p) (p_worker p) (was ! i) w = (r, w'')"
      for i w r w''
    proof -
      from that(1) ga have i: "i < ?n" by simp
      with ga have wi: "was ! i =
          MemArgs (ins ! i) (outs ! i) i ?meta
            (\<lparr>pandarallel_counter = 0, pandarallel_queue = []\<rparr>,
             wrapped ?pb i (length (chunks ! i) div 100) func) args"
        by simp
      from that(3) True wi
      have pw: "prepare_worker True (p_worker p)
                (MemArgs (ins ! i) (outs ! i) i ?meta
                   (\<lparr>pandarallel_counter = 0, pandarallel_queue = []\<rparr>,
                    wrapped ?pb i (length (chunks ! i) div 100) func) args) w = (r, w'')"
        by simp
      note same = prepare_worker_memory_contents [OF pw]
      have a: "I w''"
        unfolding I_def using that(2) neq i same by (auto simp: I_def)
      have b: "Q i r w''"
        unfolding Q_def
      proof (intro allI impI)
        fix x assume rx: "r = Inr x"
        from that(2) i have "w_contents w (ins ! i) = Some (PickledChunk (chunks ! i))"
          by (simp add: I_def)
        from prepare_worker_memory_result [OF pw [unfolded rx] this]
        show "\<exists>v q. partition_result p data func args chunks i q = Inr v
                \<and> w_contents w'' (outs ! i) = Some (PickledResult v)"
          by (auto simp: pr)
      qed
      have c: "Q j r' w''" if "j \<noteq> i" "Q j r' w" "j < ?n" for j r'
        using that same [of "outs ! j"] neq2 [OF i that(3)] by (auto simp: Q_def)
      from a b c ga(1) show ?thesis
        by simp
    qed
    have "I w2 \<and> (\<forall>j < length was. \<forall>r. mr_slots mr ! j = Some r \<longrightarrow> Q j r w2)
            \<and> length (mr_slots mr) = length was \<and> first_error_inv mr"
    proof (rule run_pool_rule [where I = I and Q = Q
             and task = "prepare_worker (p_use_memory_fs p) (p_worker p)" and was = was
             and w = w1 and mr = "map_async (length was)" and schedule = schedule
             and mr' = mr and w' = w2])
      show "I w' \<and> Q i res w' \<and> (\<forall>j < length was. \<forall>r. j \<noteq> i \<longrightarrow> Q j r w \<longrightarrow> Q j r w')"
        if "i < length was" "I w"
           "prepare_worker (p_use_memory_fs p) (p_worker p) (was ! i) w = (res, w')"
        for i w res w'
        using that by (rule step)
      show "I w1" using ga(6) by (simp add: I_def)
    qed (simp_all add: slots0 l0 first_error_inv_map_async rp)
    then have inv: "\<forall>j < length was. \<forall>r. mr_slots mr ! j = Some r \<longrightarrow> Q j r w2"
      and lm: "length (mr_slots mr) = length was" and fe: "first_error_inv mr"
      by auto
    from map_result_get_ok [OF mg fe] lm
    have xs: "\<forall>j < length was. mr_slots mr ! j = Some (Inr (xs ! j))"
      by auto
    from res True have lo: "load_outputs outs wa = Inr results" by simp
    note lr = load_outputs_result [OF lo]
    from lr ga len have lres: "length results = length chunks" by simp
    have "\<exists>q. partition_result p data func args chunks i q = Inr (results ! i)"
      if "i < length chunks" for i
    proof -
      from that len ga have i: "i < ?n" "i < length was" "i < length outs" by auto
      with xs inv have "Q i (Inr (xs ! i)) w2" by auto
      then obtain v q where
        v: "partition_result p data func args chunks i q = Inr v"
           "w_contents w2 (outs ! i) = Some (PickledResult v)"
        by (auto simp: Q_def)
      have "outs ! i \<notin> set ins"
        using neq [OF _ i(1)] ga(2) by (auto simp: in_set_conv_nth)
      from aggregate_contents [OF ag this] v(2)
      have "w_contents wa (outs ! i) = Some (PickledResult v)" by simp
      with lr i(3) have "results ! i = v" by auto
      with v(1) show ?thesis by blast
    qed
    with red lres show ?thesis by blast
  qed
qed

theorem results_in_partition_order_witness:
  "map_option fst (closure example_parallel_apply (\<lambda>chunk. True) [1, 0] [1, 2, 3]
          (\<lambda>x. Inr (x * x)) () example_world) = Some (Inr [1, 4, 9])
   \<and> (\<exists>results. concat results = [1, 4, 9] \<and> length results = 2
         \<and> (\<exists>q. partition_result example_parallel_apply [1, 2, 3] (\<lambda>x. Inr (x * x)) ()
                   [[1], [2, 3]] 0 q = Inr (results ! 0))
         \<and> (\<exists>q. partition_result example_parallel_apply [1, 2, 3] (\<lambda>x. Inr (x * x)) ()
                   [[1], [2, 3]] 1 q = Inr (results ! 1)))"
proof -
  have r: "map_option fst (closure example_parallel_apply (\<lambda>chunk. True) [1, 0] [1, 2, 3]
          (\<lambda>x. Inr (x * x)) () example_world) = Some (Inr [1, 4, 9])"
    by code_simp
  then obtain w' where run: "closure example_parallel_apply (\<lambda>chunk. True) [1, 0] [1, 2, 3]
          (\<lambda>x. Inr (x * x)) () example_world = Some (Inr [1, 4, 9], w')"
    by (cases "closure example_parallel_apply (\<lambda>chunk. True) [1, 0] [1, 2, 3]
          (\<lambda>x. Inr (x * x)) () example_world") auto
  have chunks: "p_get_chunks example_parallel_apply (p_nb_workers example_parallel_apply)
                  [1, 2, 3] () = Inr [[1], [2, 3]]"
    by (simp add: example_parallel_apply_def parallelize_def)
  have len: "length [[1], [2, 3 :: int]] = p_nb_workers example_parallel_apply"
    by (simp add: example_parallel_apply_def parallelize_def)
  have names: "p_use_memory_fs example_parallel_apply \<longrightarrow>
      distinct (take (2 * p_nb_workers example_parallel_apply) (w_tmp_supply example_world))"
    by (simp add: example_parallel_apply_def parallelize_def example_world_def)
  from results_in_partition_order [OF run chunks len names]
  obtain results where
    a: "p_reduce example_parallel_apply results (p_get_reduce_meta_args example_parallel_apply [1, 2, 3])
          = Inr [1, 4, 9]" and
    b: "length results = 2" and
    c: "\<forall>i<2. \<exists>q. partition_result example_parallel_apply [1, 2, 3] (\<lambda>x. Inr (x * x)) ()
                   [[1], [2, 3]] i q = Inr (results ! i)"
    by auto
  from a have a': "concat results = [1, 4, 9]"
    by (simp add: example_parallel_apply_def parallelize_def)
  from c have "\<exists>q. partition_result example_parallel_apply [1, 2, 3] (\<lambda>x. Inr (x * x)) ()
                   [[1], [2, 3]] 0 q = Inr (results ! 0)"
      and "\<exists>q. partition_result example_parallel_apply [1, 2, 3] (\<lambda>x. Inr (x * x)) ()
                   [[1], [2, 3]] 1 q = Inr (results ! 1)"
    by auto
  with r a' b show ?thesis by blast
qed

end
